theory Spec2Isabelle
  imports Main
begin

section \<open>VaultUSB: key lifecycle and encrypted storage engine\<close>

text \<open>
  A shallow embedding of \<^verbatim>\<open>app/crypto.py\<close> (class CryptoManager) and
  \<^verbatim>\<open>app/storage.py\<close> (class StorageManager).

  Conventions.
  \<^item> Python \<^verbatim>\<open>bytes\<close> are lists of \<^typ>\<open>char\<close> (a HOL character is an 8-bit value).
    A Python \<^verbatim>\<open>str\<close> is represented by its UTF-8 bytes, so \<^verbatim>\<open>.encode()\<close> and
    \<^verbatim>\<open>.decode()\<close> on ASCII text are the identity.
  \<^item> An exception is a value of type \<open>exn\<close>; a function that may raise returns
    \<open>exn + 'a\<close> with \<open>Inl\<close> for the raised exception.
  \<^item> The operating system's entropy source, the filesystem, the metadata database and
    the in-memory CryptoManager are fields of an explicit \<open>world\<close> that every
    operation takes and returns.
  \<^item> The methods are described as they run once the modules are loaded; loading
    itself (the import statements) is not represented.
  \<^item> The third-party primitives (ChaCha20-Poly1305, HKDF-SHA256, the raw Argon2id
    function, the MIME table) are not part of the repository: they are the fields of
    a record \<open>lib\<close> passed to every definition that calls them.
\<close>

subsection \<open>Bytes, exceptions\<close>

type_synonym bytes = "char list"
type_synonym path = string

datatype exn =
    RuntimeError string
  | ValueError string
  | InvalidTag
  | KeyError string
  | Base64Error
  | OSError
  | DatabaseError
  | HashingError
  | OverflowError

definition byte_val :: "char \<Rightarrow> nat" where
  "byte_val c = of_char c"

definition byte_of :: "nat \<Rightarrow> char" where
  "byte_of n = char_of n"

subsection \<open>Standard-library text encodings\<close>

text \<open>\<^verbatim>\<open>base64.b64encode\<close>: three bytes become four characters of the alphabet, the
  last group is padded with \<^verbatim>\<open>=\<close>.\<close>

definition b64_alphabet :: string where
  "b64_alphabet = ''ABCDEFGHIJKLMNOPQRSTUVWXYZabcdefghijklmnopqrstuvwxyz0123456789+/''"

definition b64_char :: "nat \<Rightarrow> char" where
  "b64_char n = b64_alphabet ! n"

fun b64encode :: "bytes \<Rightarrow> string" where
  "b64encode [] = []"
| "b64encode [a] =
     [b64_char (byte_val a div 4), b64_char ((byte_val a mod 4) * 16), CHR ''='', CHR ''='']"
| "b64encode [a, b] =
     [b64_char (byte_val a div 4),
      b64_char ((byte_val a mod 4) * 16 + byte_val b div 16),
      b64_char ((byte_val b mod 16) * 4), CHR ''='']"
| "b64encode (a # b # c # rest) =
     [b64_char (byte_val a div 4),
      b64_char ((byte_val a mod 4) * 16 + byte_val b div 16),
      b64_char ((byte_val b mod 16) * 4 + byte_val c div 64),
      b64_char (byte_val c mod 64)] @ b64encode rest"

text \<open>\<^verbatim>\<open>base64.b64decode\<close> with its default \<^verbatim>\<open>validate=False\<close>, that is
  \<^verbatim>\<open>binascii.a2b_base64\<close> in non-strict mode: characters outside the alphabet are
  skipped, a pad that completes a quad ends the data, leftover characters raise
  \<^verbatim>\<open>binascii.Error\<close>. The state of the scan is (quad_pos, leftchar, pads).\<close>

primrec index_of :: "'a \<Rightarrow> 'a list \<Rightarrow> nat option" where
  "index_of x [] = None"
| "index_of x (y # ys) =
     (if x = y then Some 0 else map_option Suc (index_of x ys))"

definition b64_index :: "char \<Rightarrow> nat option" where
  "b64_index c = index_of c b64_alphabet"

fun a2b_base64 :: "nat \<Rightarrow> nat \<Rightarrow> nat \<Rightarrow> bytes \<Rightarrow> string \<Rightarrow> exn + bytes" where
  "a2b_base64 quad_pos leftchar pads out [] =
     (if quad_pos \<noteq> 0 then Inl Base64Error else Inr out)"
| "a2b_base64 quad_pos leftchar pads out (c # cs) =
     (if c = CHR ''='' then
        (if quad_pos \<ge> 2 \<and> quad_pos + (pads + 1) \<ge> 4 then Inr out
         else a2b_base64 quad_pos leftchar (if quad_pos \<ge> 2 then pads + 1 else pads) out cs)
      else
        (case b64_index c of
           None \<Rightarrow> a2b_base64 quad_pos leftchar pads out cs
         | Some this_ch \<Rightarrow>
             (if quad_pos = 0 then a2b_base64 1 this_ch 0 out cs
              else if quad_pos = 1 then
                a2b_base64 2 (this_ch mod 16) 0
                  (out @ [byte_of (leftchar * 4 + this_ch div 16)]) cs
              else if quad_pos = 2 then
                a2b_base64 3 (this_ch mod 4) 0
                  (out @ [byte_of (leftchar * 16 + this_ch div 4)]) cs
              else
                a2b_base64 0 0 0 (out @ [byte_of (leftchar * 64 + this_ch)]) cs)))"

text \<open>\<^verbatim>\<open>base64.b64decode(s)\<close> on a \<^verbatim>\<open>str\<close>: the string is first encoded as ASCII,
  which raises ValueError on any other character.\<close>

definition b64decode :: "string \<Rightarrow> exn + bytes" where
  "b64decode s =
     (if list_ex (\<lambda>c. 128 \<le> byte_val c) s
      then Inl (ValueError ''string argument should contain only ASCII characters'')
      else a2b_base64 0 0 0 [] s)"

text \<open>\<^verbatim>\<open>str(n)\<close> for a non-negative integer.\<close>

fun str_nat :: "nat \<Rightarrow> string" where
  "str_nat n =
     (if n < 10 then [byte_of (48 + n)]
      else str_nat (n div 10) @ [byte_of (48 + n mod 10)])"

declare str_nat.simps [simp del]

subsection \<open>Entropy\<close>

text \<open>The operating system's random source (\<^verbatim>\<open>os.urandom\<close>, on which
  \<^verbatim>\<open>secrets.token_bytes\<close>, \<^verbatim>\<open>secrets.token_urlsafe\<close> and \<^verbatim>\<open>uuid.uuid4\<close>
  all draw) is a tape of bytes and a read position. A draw of \<open>n\<close> bytes returns
  the next \<open>n\<close> bytes of the tape and advances the position.\<close>

record entropy =
  tape :: "nat \<Rightarrow> char"
  pos :: nat

definition token_bytes :: "nat \<Rightarrow> entropy \<Rightarrow> bytes \<times> entropy" where
  "token_bytes n e = (map (tape e) [pos e ..< pos e + n], e\<lparr>pos := pos e + n\<rparr>)"

definition rstrip_pad :: "string \<Rightarrow> string" where
  "rstrip_pad s = rev (dropWhile (\<lambda>c. c = CHR ''='') (rev s))"

definition urlsafe_char :: "char \<Rightarrow> char" where
  "urlsafe_char c = (if c = CHR ''+'' then CHR ''-'' else if c = CHR ''/'' then CHR ''_'' else c)"

definition token_urlsafe :: "nat \<Rightarrow> entropy \<Rightarrow> string \<times> entropy" where
  "token_urlsafe n e =
     (let (tok, e') = token_bytes n e
      in (rstrip_pad (map urlsafe_char (b64encode tok)), e'))"

definition hex_digit :: "nat \<Rightarrow> char" where
  "hex_digit n = ''0123456789abcdef'' ! n"

definition hex_byte :: "char \<Rightarrow> string" where
  "hex_byte c = [hex_digit (byte_val c div 16), hex_digit (byte_val c mod 16)]"

text \<open>\<^verbatim>\<open>str(uuid.uuid4())\<close>: sixteen random bytes, the version nibble set to 4 and
  the variant bits to binary 10, printed as 8-4-4-4-12 hexadecimal digits.\<close>

definition uuid4_str :: "entropy \<Rightarrow> string \<times> entropy" where
  "uuid4_str e =
     (let (r, e') = token_bytes 16 e;
          b = r[6 := byte_of (byte_val (r ! 6) mod 16 + 64),
                8 := byte_of (byte_val (r ! 8) mod 64 + 128)];
          h = (\<lambda>i j. concat (map hex_byte (take (j - i) (drop i b))))
      in (h 0 4 @ ''-'' @ h 4 6 @ ''-'' @ h 6 8 @ ''-'' @ h 8 10 @ ''-'' @ h 10 16, e'))"

subsection \<open>Configuration and third-party primitives\<close>

text \<open>The fields of \<^verbatim>\<open>app/config.py\<close> that the vault reads.\<close>

record config =
  master_key_file :: path
  vault_dir :: path
  argon2_time_cost :: nat
  argon2_memory_cost :: nat
  argon2_parallelism :: nat
  file_key_size :: nat

text \<open>The defaults of \<^verbatim>\<open>Config\<close>.\<close>

definition default_config :: config where
  "default_config =
     \<lparr> master_key_file = ''/opt/vaultusb/master.key'',
       vault_dir = ''/opt/vaultusb/vault'',
       argon2_time_cost = 3,
       argon2_memory_cost = 65536,
       argon2_parallelism = 1,
       file_key_size = 32 \<rparr>"

text \<open>The library functions the repository calls but does not contain:
  \<^item> \<open>aead_encrypt key nonce plaintext\<close>: ChaCha20-Poly1305 sealing (ciphertext followed
    by the 16-byte tag), no associated data;
  \<^item> \<open>aead_decrypt key nonce data\<close>: its opening, \<open>None\<close> when the tag does not verify
    (the library raises \<^verbatim>\<open>InvalidTag\<close>);
  \<^item> \<open>hkdf_sha256 length salt info ikm\<close>: HKDF with SHA-256;
  \<^item> \<open>argon2id_raw t m p password salt\<close>: the raw 32-byte Argon2id tag;
  \<^item> \<open>guess_type name\<close>: \<^verbatim>\<open>mimetypes.guess_type\<close>.\<close>

record lib =
  aead_encrypt :: "bytes \<Rightarrow> bytes \<Rightarrow> bytes \<Rightarrow> bytes"
  aead_decrypt :: "bytes \<Rightarrow> bytes \<Rightarrow> bytes \<Rightarrow> bytes option"
  hkdf_sha256 :: "nat \<Rightarrow> bytes \<Rightarrow> bytes \<Rightarrow> bytes \<Rightarrow> bytes"
  argon2id_raw :: "nat \<Rightarrow> nat \<Rightarrow> nat \<Rightarrow> bytes \<Rightarrow> bytes \<Rightarrow> bytes"
  guess_type :: "string \<Rightarrow> string option"

text \<open>What the repository expects of the primitives: opening with the key and nonce
  of the sealing gives the plaintext back, and HKDF returns as many bytes as it is
  asked for.\<close>

definition aead_round_trip :: "lib \<Rightarrow> bool" where
  "aead_round_trip L =
     (\<forall>key nonce p. length key = 32 \<longrightarrow> length nonce = 12 \<longrightarrow>
        aead_decrypt L key nonce (aead_encrypt L key nonce p) = Some p)"

definition hkdf_length :: "lib \<Rightarrow> bool" where
  "hkdf_length L = (\<forall>len salt info ikm. length (hkdf_sha256 L len salt info ikm) = len)"

text \<open>\<^verbatim>\<open>ChaCha20Poly1305(key)\<close> raises ValueError unless the key has 32 bytes;
  \<^verbatim>\<open>encrypt\<close> and \<^verbatim>\<open>decrypt\<close> raise ValueError unless the nonce has 12 bytes.\<close>

definition ChaCha20Poly1305 :: "bytes \<Rightarrow> exn + bytes" where
  "ChaCha20Poly1305 key =
     (if length key \<noteq> 32 then Inl (ValueError ''ChaCha20Poly1305 key must be 32 bytes.'')
      else Inr key)"

definition cipher_encrypt :: "lib \<Rightarrow> bytes \<Rightarrow> bytes \<Rightarrow> bytes \<Rightarrow> exn + bytes" where
  "cipher_encrypt L key nonce data =
     (if length nonce \<noteq> 12 then Inl (ValueError ''Nonce must be 12 bytes'')
      else Inr (aead_encrypt L key nonce data))"

definition cipher_decrypt :: "lib \<Rightarrow> bytes \<Rightarrow> bytes \<Rightarrow> bytes \<Rightarrow> exn + bytes" where
  "cipher_decrypt L key nonce data =
     (if length nonce \<noteq> 12 then Inl (ValueError ''Nonce must be 12 bytes'')
      else case aead_decrypt L key nonce data of
             None \<Rightarrow> Inl InvalidTag
           | Some plaintext \<Rightarrow> Inr plaintext)"

text \<open>\<^verbatim>\<open>HKDF(algorithm=SHA256, length, salt, info).derive(ikm)\<close>; the constructor
  raises ValueError when the length exceeds 255 hash blocks.\<close>

definition hkdf_derive :: "lib \<Rightarrow> nat \<Rightarrow> bytes \<Rightarrow> bytes \<Rightarrow> bytes \<Rightarrow> exn + bytes" where
  "hkdf_derive L len salt info ikm =
     (if len > 255 * 32 then Inl (ValueError ''Cannot derive keys larger than 8160 octets.'')
      else Inr (hkdf_sha256 L len salt info ikm))"

text \<open>\<^verbatim>\<open>PasswordHasher(time_cost, memory_cost, parallelism).hash(password)\<close> of
  argon2-cffi: the hasher draws its own 16-byte salt from the operating system on
  every call, computes the raw Argon2id tag, and returns the PHC-encoded string
  \<^verbatim>\<open>$argon2id$v=19$m=M,t=T,p=P$salt$hash\<close> with salt and hash in unpadded base64.\<close>

definition argon2_encode :: "config \<Rightarrow> bytes \<Rightarrow> bytes \<Rightarrow> string" where
  "argon2_encode cfg salt raw =
     ''$argon2id$v=19$m='' @ str_nat (argon2_memory_cost cfg) @
     '',t='' @ str_nat (argon2_time_cost cfg) @
     '',p='' @ str_nat (argon2_parallelism cfg) @
     ''$'' @ rstrip_pad (b64encode salt) @ ''$'' @ rstrip_pad (b64encode raw)"

text \<open>The cost parameters that the hash call refuses. A value that does not fit the
  32-bit arguments of the C function raises OverflowError at the call. Argon2 itself
  refuses, and the hasher then raises HashingError: a time cost of 0, no lane or more
  than \<open>2^24 - 1\<close> lanes, less memory than 8 KiB or than 8 KiB per lane.\<close>

definition argon2_refuses :: "config \<Rightarrow> exn option" where
  "argon2_refuses cfg =
     (let t = argon2_time_cost cfg; m = argon2_memory_cost cfg; p = argon2_parallelism cfg
      in if 4294967296 \<le> t \<or> 4294967296 \<le> m \<or> 4294967296 \<le> p then Some OverflowError
         else if t < 1 \<or> p < 1 \<or> 16777215 < p \<or> m < 8 \<or> m < 8 * p
              then Some HashingError
         else None)"

text \<open>The salt is drawn while the arguments of the call are evaluated, hence also
  when the call then raises.\<close>

definition argon2_hasher_hash ::
  "lib \<Rightarrow> config \<Rightarrow> bytes \<Rightarrow> entropy \<Rightarrow> (exn + string) \<times> entropy" where
  "argon2_hasher_hash L cfg password e =
     (let (hsalt, e') = token_bytes 16 e
      in case argon2_refuses cfg of
           Some x \<Rightarrow> (Inl x, e')
         | None \<Rightarrow>
             (Inr (argon2_encode cfg hsalt
                     (argon2id_raw L (argon2_time_cost cfg) (argon2_memory_cost cfg)
                        (argon2_parallelism cfg) password hsalt)), e'))"

subsection \<open>Filesystem, metadata database, world\<close>

text \<open>The filesystem maps a path to the bytes of the file there. A path in
  \<open>write_protected\<close> cannot be opened for writing (\<^verbatim>\<open>open\<close> raises OSError).
  The journal records, in order, every change that reached a file: the content of
  a file after a write, a forced sync, the removal of a directory entry.\<close>

datatype fs_event = Wrote path bytes | Synced path | Unlinked path

record filesystem =
  contents :: "path \<rightharpoonup> bytes"
  write_protected :: "path set"
  journal :: "fs_event list"

definition path_exists :: "filesystem \<Rightarrow> path \<Rightarrow> bool" where
  "path_exists f p = (contents f p \<noteq> None)"

text \<open>\<^verbatim>\<open>with open(p, 'rb') as f: f.read()\<close>\<close>

definition read_file :: "filesystem \<Rightarrow> path \<Rightarrow> exn + bytes" where
  "read_file f p = (case contents f p of None \<Rightarrow> Inl OSError | Some d \<Rightarrow> Inr d)"

text \<open>\<^verbatim>\<open>with open(p, 'wb') as f: f.write(data)\<close>: creates or truncates.\<close>

definition write_file :: "filesystem \<Rightarrow> path \<Rightarrow> bytes \<Rightarrow> exn + filesystem" where
  "write_file f p d =
     (if p \<in> write_protected f then Inl OSError
      else Inr (f\<lparr>contents := (contents f)(p \<mapsto> d), journal := journal f @ [Wrote p d]\<rparr>))"

text \<open>\<^verbatim>\<open>Path.unlink()\<close>: raises on a missing file.\<close>

definition unlink :: "filesystem \<Rightarrow> path \<Rightarrow> exn + filesystem" where
  "unlink f p =
     (if contents f p = None then Inl OSError
      else Inr (f\<lparr>contents := (contents f)(p := None), journal := journal f @ [Unlinked p]\<rparr>))"

text \<open>\<^verbatim>\<open>f.seek(0); f.write(data); f.flush(); os.fsync(f.fileno())\<close> on a file opened
  \<^verbatim>\<open>'r+b'\<close>: the first \<open>length data\<close> bytes are replaced, the rest is kept.\<close>

definition overwrite_sync :: "filesystem \<Rightarrow> path \<Rightarrow> bytes \<Rightarrow> filesystem" where
  "overwrite_sync f p d =
     (let old = (case contents f p of None \<Rightarrow> [] | Some x \<Rightarrow> x);
          new = d @ drop (length d) old
      in f\<lparr>contents := (contents f)(p \<mapsto> new),
            journal := journal f @ [Wrote p new, Synced p]\<rparr>)"

text \<open>\<^verbatim>\<open>Path(dir) / name\<close>: an absolute \<open>name\<close> replaces the directory. Paths are
  compared as strings; the normalisation that \<^verbatim>\<open>pathlib\<close> applies to \<^verbatim>\<open>.\<close>, \<^verbatim>\<open>//\<close> and a
  trailing \<^verbatim>\<open>/\<close> is not represented.\<close>

definition path_join :: "path \<Rightarrow> string \<Rightarrow> path" where
  "path_join d name = (if take 1 name = ''/'' then name else d @ ''/'' @ name)"

text \<open>The table of model \<^verbatim>\<open>File\<close> (\<^verbatim>\<open>app/models.py\<close>); \<open>id_file\<close> is the primary key
  \<^verbatim>\<open>id\<close>, \<open>size_file\<close> the column \<^verbatim>\<open>size\<close>.\<close>

record file_row =
  id_file :: string
  original_name :: string
  encrypted_name :: string
  size_file :: nat
  mime_type :: string
  created_at :: nat
  modified_at :: nat
  user_id :: int
  is_deleted :: bool

record user =
  id_user :: int
  username :: string

text \<open>The database: the rows of the file table, and whether a writer is blocked
  (\<^verbatim>\<open>session.commit()\<close> then raises, as SQLite does on a locked or read-only
  database file).\<close>

record database =
  file_table :: "file_row list"
  locked :: bool

text \<open>\<^verbatim>\<open>session.add(file_record); session.commit()\<close>: the commit raises when the
  database is locked or the primary key is taken.\<close>

definition add_commit :: "database \<Rightarrow> file_row \<Rightarrow> exn + database" where
  "add_commit d r =
     (if locked d \<or> id_file r \<in> set (map id_file (file_table d)) then Inl DatabaseError
      else Inr (d\<lparr>file_table := file_table d @ [r]\<rparr>))"

text \<open>\<^verbatim>\<open>session.query(File).filter(File.id == file_id, File.user_id == user.id,
  File.is_deleted == False).first()\<close>\<close>

definition query_active :: "database \<Rightarrow> string \<Rightarrow> user \<Rightarrow> file_row option" where
  "query_active d file_id u =
     find (\<lambda>r. id_file r = file_id \<and> user_id r = id_user u \<and> \<not> is_deleted r) (file_table d)"

text \<open>\<^verbatim>\<open>file_record.is_deleted = True; file_record.modified_at = utcnow();
  session.commit()\<close>: the row with the record's primary key is updated.\<close>

definition mark_deleted_commit :: "database \<Rightarrow> file_row \<Rightarrow> nat \<Rightarrow> exn + database" where
  "mark_deleted_commit d r t =
     (if locked d then Inl DatabaseError
      else Inr (d\<lparr>file_table :=
                  map (\<lambda>x. if id_file x = id_file r
                            then x\<lparr>is_deleted := True, modified_at := t\<rparr> else x)
                      (file_table d)\<rparr>))"

text \<open>The state of \<^verbatim>\<open>CryptoManager\<close>: \<^verbatim>\<open>_master_key\<close> and \<^verbatim>\<open>_is_unlocked\<close>.\<close>

record crypto_manager =
  master_key :: "bytes option"
  is_unlocked_flag :: bool

record world =
  fs :: filesystem
  db :: database
  rng :: entropy
  crypto :: crypto_manager
  clock :: nat

subsection \<open>CryptoManager (app/crypto.py)\<close>

text \<open>\<^verbatim>\<open>generate_master_key\<close>\<close>

definition generate_master_key :: "entropy \<Rightarrow> bytes \<times> entropy" where
  "generate_master_key e = token_bytes 32 e"

text \<open>\<^verbatim>\<open>derive_key_from_password(password, salt)\<close> returns
  \<^verbatim>\<open>self.argon2_hasher.hash(password.encode()).encode()\<close>. The argument \<open>salt\<close> is
  not used by the body.\<close>

definition derive_key_from_password ::
  "lib \<Rightarrow> config \<Rightarrow> string \<Rightarrow> bytes \<Rightarrow> entropy \<Rightarrow> (exn + bytes) \<times> entropy" where
  "derive_key_from_password L cfg password salt e = argon2_hasher_hash L cfg password e"

text \<open>\<^verbatim>\<open>seal_master_key\<close>. The result is the dictionary \<^verbatim>\<open>sealed_info\<close>;
  \<^verbatim>\<open>json.dumps\<close> writes it as text and \<^verbatim>\<open>json.loads\<close> in \<^verbatim>\<open>unseal_master_key\<close>
  reads the same dictionary back, so the JSON text is not represented.\<close>

definition seal_master_key ::
  "lib \<Rightarrow> config \<Rightarrow> bytes \<Rightarrow> string \<Rightarrow> entropy \<Rightarrow> (exn + (string \<rightharpoonup> string)) \<times> entropy" where
  "seal_master_key L cfg mk password e =
     (let (salt, e1) = token_bytes 32 e
      in case derive_key_from_password L cfg password salt e1 of
           (Inl x, e2) \<Rightarrow> (Inl x, e2)
         | (Inr derived_key, e2) \<Rightarrow>
             (let key = take 32 derived_key
              in case ChaCha20Poly1305 key of
                   Inl x \<Rightarrow> (Inl x, e2)
                 | Inr cipher \<Rightarrow>
                     (let (nonce, e3) = token_bytes 12 e2
                      in case cipher_encrypt L cipher nonce mk of
                           Inl x \<Rightarrow> (Inl x, e3)
                         | Inr sealed_data \<Rightarrow>
                             (Inr [''salt'' \<mapsto> b64encode salt,
                                   ''nonce'' \<mapsto> b64encode nonce,
                                   ''sealed_data'' \<mapsto> b64encode sealed_data], e3))))"

text \<open>\<^verbatim>\<open>base64.b64decode(sealed_info[name])\<close>: KeyError on a missing field.\<close>

definition envelope_field :: "(string \<rightharpoonup> string) \<Rightarrow> string \<Rightarrow> exn + bytes" where
  "envelope_field sealed_info name =
     (case sealed_info name of None \<Rightarrow> Inl (KeyError name) | Some s \<Rightarrow> b64decode s)"

text \<open>The body of the \<^verbatim>\<open>try\<close> of \<^verbatim>\<open>unseal_master_key\<close>.\<close>

definition unseal_body ::
  "lib \<Rightarrow> config \<Rightarrow> (string \<rightharpoonup> string) \<Rightarrow> string \<Rightarrow> entropy \<Rightarrow> (exn + bytes) \<times> entropy" where
  "unseal_body L cfg sealed_info password e =
     (case envelope_field sealed_info ''salt'' of
        Inl x \<Rightarrow> (Inl x, e)
      | Inr salt \<Rightarrow>
         (case envelope_field sealed_info ''nonce'' of
            Inl x \<Rightarrow> (Inl x, e)
          | Inr nonce \<Rightarrow>
             (case envelope_field sealed_info ''sealed_data'' of
                Inl x \<Rightarrow> (Inl x, e)
              | Inr sealed_key \<Rightarrow>
                 (case derive_key_from_password L cfg password salt e of
                    (Inl x, e1) \<Rightarrow> (Inl x, e1)
                  | (Inr derived_key, e1) \<Rightarrow>
                      (let key = take 32 derived_key
                       in case ChaCha20Poly1305 key of
                            Inl x \<Rightarrow> (Inl x, e1)
                          | Inr cipher \<Rightarrow>
                              (cipher_decrypt L cipher nonce sealed_key, e1))))))"

text \<open>\<^verbatim>\<open>unseal_master_key\<close>: every exception of the body is raised again as
  ValueError.\<close>

definition unseal_master_key ::
  "lib \<Rightarrow> config \<Rightarrow> (string \<rightharpoonup> string) \<Rightarrow> string \<Rightarrow> entropy \<Rightarrow> (exn + bytes) \<times> entropy" where
  "unseal_master_key L cfg sealed_info password e =
     (case unseal_body L cfg sealed_info password e of
        (Inl x, e') \<Rightarrow> (Inl (ValueError ''Failed to unseal master key''), e')
      | (Inr mk, e') \<Rightarrow> (Inr mk, e'))"

text \<open>\<^verbatim>\<open>is_unlocked\<close> and \<^verbatim>\<open>lock\<close>\<close>

definition is_unlocked :: "crypto_manager \<Rightarrow> bool" where
  "is_unlocked c = (is_unlocked_flag c \<and> master_key c \<noteq> None)"

definition lock :: "crypto_manager \<Rightarrow> crypto_manager" where
  "lock c = c\<lparr>master_key := None, is_unlocked_flag := False\<rparr>"

text \<open>The guard \<^verbatim>\<open>not self._is_unlocked or not self._master_key\<close>: an empty key is
  falsy as well.\<close>

definition key_missing :: "crypto_manager \<Rightarrow> bool" where
  "key_missing c = (\<not> is_unlocked_flag c \<or> master_key c = None \<or> master_key c = Some [])"

text \<open>\<^verbatim>\<open>derive_file_key\<close>\<close>

definition derive_file_key :: "lib \<Rightarrow> config \<Rightarrow> crypto_manager \<Rightarrow> string \<Rightarrow> exn + bytes" where
  "derive_file_key L cfg c file_id =
     (if key_missing c then Inl (RuntimeError ''Master key not unlocked'')
      else hkdf_derive L (file_key_size cfg) ''vaultusb_file_key'' file_id (the (master_key c)))"

text \<open>\<^verbatim>\<open>encrypt_file\<close>: "Encrypt a file in place". The guard raises; every exception
  inside the \<^verbatim>\<open>try\<close> is printed and turned into the result False.\<close>

definition encrypt_file :: "lib \<Rightarrow> config \<Rightarrow> world \<Rightarrow> path \<Rightarrow> string \<Rightarrow> (exn + bool) \<times> world" where
  "encrypt_file L cfg w file_path file_id =
     (if key_missing (crypto w) then (Inl (RuntimeError ''Master key not unlocked''), w)
      else
        (case derive_file_key L cfg (crypto w) file_id of
           Inl x \<Rightarrow> (Inr False, w)
         | Inr file_key \<Rightarrow>
            (case ChaCha20Poly1305 file_key of
               Inl x \<Rightarrow> (Inr False, w)
             | Inr cipher \<Rightarrow>
                (case read_file (fs w) file_path of
                   Inl x \<Rightarrow> (Inr False, w)
                 | Inr plaintext \<Rightarrow>
                    (let (nonce, e1) = token_bytes 12 (rng w);
                         w1 = w\<lparr>rng := e1\<rparr>
                     in case cipher_encrypt L cipher nonce plaintext of
                          Inl x \<Rightarrow> (Inr False, w1)
                        | Inr ciphertext \<Rightarrow>
                           (case write_file (fs w1) file_path (nonce @ ciphertext) of
                              Inl x \<Rightarrow> (Inr False, w1)
                            | Inr f' \<Rightarrow> (Inr True, w1\<lparr>fs := f'\<rparr>)))))))"

text \<open>\<^verbatim>\<open>decrypt_file\<close>: the guard raises RuntimeError; every exception inside the
  \<^verbatim>\<open>try\<close> is raised again as ValueError.\<close>

definition decrypt_body :: "lib \<Rightarrow> config \<Rightarrow> world \<Rightarrow> path \<Rightarrow> string \<Rightarrow> exn + bytes" where
  "decrypt_body L cfg w file_path file_id =
     (case derive_file_key L cfg (crypto w) file_id of
        Inl x \<Rightarrow> Inl x
      | Inr file_key \<Rightarrow>
         (case ChaCha20Poly1305 file_key of
            Inl x \<Rightarrow> Inl x
          | Inr cipher \<Rightarrow>
             (case read_file (fs w) file_path of
                Inl x \<Rightarrow> Inl x
              | Inr encrypted_data \<Rightarrow>
                 (let nonce = take 12 encrypted_data;
                      ciphertext = drop 12 encrypted_data
                  in cipher_decrypt L cipher nonce ciphertext))))"

definition decrypt_file :: "lib \<Rightarrow> config \<Rightarrow> world \<Rightarrow> path \<Rightarrow> string \<Rightarrow> exn + bytes" where
  "decrypt_file L cfg w file_path file_id =
     (if key_missing (crypto w) then Inl (RuntimeError ''Master key not unlocked'')
      else case decrypt_body L cfg w file_path file_id of
             Inl x \<Rightarrow> Inl (ValueError ''Failed to decrypt file'')
           | Inr plaintext \<Rightarrow> Inr plaintext)"

text \<open>The loop \<^verbatim>\<open>for _ in range(3)\<close> of \<^verbatim>\<open>secure_delete\<close>, for any number of
  passes: each pass draws \<open>file_size\<close> fresh random bytes, writes them from offset 0
  and syncs.\<close>

primrec overwrite_passes :: "nat \<Rightarrow> path \<Rightarrow> nat \<Rightarrow> world \<Rightarrow> world" where
  "overwrite_passes 0 file_path file_size w = w"
| "overwrite_passes (Suc k) file_path file_size w =
     (let (r, e1) = token_bytes file_size (rng w)
      in overwrite_passes k file_path file_size
           (w\<lparr>rng := e1, fs := overwrite_sync (fs w) file_path r\<rparr>))"

text \<open>\<^verbatim>\<open>secure_delete\<close>: True for a missing file; an exception (the file cannot be
  opened \<^verbatim>\<open>'r+b'\<close>, the unlink fails) is printed and turned into False.\<close>

definition secure_delete :: "world \<Rightarrow> path \<Rightarrow> bool \<times> world" where
  "secure_delete w file_path =
     (if \<not> path_exists (fs w) file_path then (True, w)
      else
        (let file_size = length (the (contents (fs w) file_path))
         in if file_path \<in> write_protected (fs w) then (False, w)
            else
              (let w1 = overwrite_passes 3 file_path file_size w
               in case unlink (fs w1) file_path of
                    Inl x \<Rightarrow> (False, w1)
                  | Inr f' \<Rightarrow> (True, w1\<lparr>fs := f'\<rparr>))))"

subsection \<open>StorageManager (app/storage.py)\<close>

definition generate_file_id :: "entropy \<Rightarrow> string \<times> entropy" where
  "generate_file_id e = uuid4_str e"

definition generate_encrypted_filename :: "entropy \<Rightarrow> string \<times> entropy" where
  "generate_encrypted_filename e = token_urlsafe 32 e"

definition get_mime_type :: "lib \<Rightarrow> string \<Rightarrow> string" where
  "get_mime_type L filename =
     (case guess_type L filename of
        None \<Rightarrow> ''application/octet-stream''
      | Some m \<Rightarrow> (if m = [] then ''application/octet-stream'' else m))"

text \<open>\<^verbatim>\<open>store_file\<close>. The lock guard raises RuntimeError; inside the \<^verbatim>\<open>try\<close> every
  exception is printed and the result is None. The call of the coroutine function
  \<^verbatim>\<open>log_system_event\<close> is not awaited and so has no effect.\<close>

definition store_file ::
  "lib \<Rightarrow> config \<Rightarrow> world \<Rightarrow> bytes \<Rightarrow> string \<Rightarrow> user \<Rightarrow> (exn + string option) \<times> world" where
  "store_file L cfg w file_data name u =
     (if \<not> is_unlocked (crypto w) then (Inl (RuntimeError ''Vault is locked''), w)
      else
        (let (file_id, e1) = generate_file_id (rng w);
             (encrypted_filename, e2) = generate_encrypted_filename e1;
             encrypted_path = path_join (vault_dir cfg) encrypted_filename;
             w1 = w\<lparr>rng := e2\<rparr>
         in case write_file (fs w1) encrypted_path file_data of
              Inl x \<Rightarrow> (Inr None, w1)
            | Inr f1 \<Rightarrow>
               (case encrypt_file L cfg (w1\<lparr>fs := f1\<rparr>) encrypted_path file_id of
                  (Inl x, w2) \<Rightarrow> (Inr None, w2)
                | (Inr ok, w2) \<Rightarrow>
                   (if \<not> ok then
                      (case unlink (fs w2) encrypted_path of
                         Inl x \<Rightarrow> (Inr None, w2)
                       | Inr f3 \<Rightarrow> (Inr None, w2\<lparr>fs := f3\<rparr>))
                    else
                      (let file_record =
                             \<lparr> id_file = file_id,
                               original_name = name,
                               encrypted_name = encrypted_filename,
                               size_file = length file_data,
                               mime_type = get_mime_type L name,
                               created_at = clock w2,
                               modified_at = clock w2,
                               user_id = id_user u,
                               is_deleted = False \<rparr>
                       in case add_commit (db w2) file_record of
                            Inl x \<Rightarrow> (Inr None, w2)
                          | Inr d' \<Rightarrow> (Inr (Some file_id), w2\<lparr>db := d'\<rparr>))))))"

text \<open>\<^verbatim>\<open>retrieve_file\<close>: None when no active record matches, None when the blob
  file is missing, and None again when \<^verbatim>\<open>decrypt_file\<close> raises (the exception is
  printed).\<close>

definition retrieve_file ::
  "lib \<Rightarrow> config \<Rightarrow> world \<Rightarrow> string \<Rightarrow> user \<Rightarrow> exn + bytes option" where
  "retrieve_file L cfg w file_id u =
     (if \<not> is_unlocked (crypto w) then Inl (RuntimeError ''Vault is locked'')
      else
        (case query_active (db w) file_id u of
           None \<Rightarrow> Inr None
         | Some file_record \<Rightarrow>
            (let encrypted_path = path_join (vault_dir cfg) (encrypted_name file_record)
             in if \<not> path_exists (fs w) encrypted_path then Inr None
                else
                  (case decrypt_file L cfg w encrypted_path file_id of
                     Inl x \<Rightarrow> Inr None
                   | Inr plaintext \<Rightarrow> Inr (Some plaintext)))))"

text \<open>\<^verbatim>\<open>delete_file\<close>: the record is marked and committed, then the blob is handed
  to \<^verbatim>\<open>secure_delete\<close>, whose result is not looked at; the method returns True.\<close>

definition delete_file ::
  "config \<Rightarrow> world \<Rightarrow> string \<Rightarrow> user \<Rightarrow> (exn + bool) \<times> world" where
  "delete_file cfg w file_id u =
     (if \<not> is_unlocked (crypto w) then (Inl (RuntimeError ''Vault is locked''), w)
      else
        (case query_active (db w) file_id u of
           None \<Rightarrow> (Inr False, w)
         | Some file_record \<Rightarrow>
            (case mark_deleted_commit (db w) file_record (clock w) of
               Inl x \<Rightarrow> (Inr False, w)
             | Inr d' \<Rightarrow>
                (let w1 = w\<lparr>db := d'\<rparr>;
                     encrypted_path = path_join (vault_dir cfg) (encrypted_name file_record)
                 in if path_exists (fs w1) encrypted_path
                    then (Inr True, snd (secure_delete w1 encrypted_path))
                    else (Inr True, w1)))))"

subsection \<open>Concrete instances\<close>

text \<open>A stand-in for the third-party primitives, used only to run the model on
  concrete inputs: \<open>toy_lib\<close> complements every plaintext byte and appends the key
  and the nonce as its "tag"; its key derivations pad and cut their inputs. It is
  not ChaCha20-Poly1305, HKDF or Argon2id; it opens what it sealed and rejects any
  other key or nonce.\<close>

definition toy_mask :: "bytes \<Rightarrow> bytes" where
  "toy_mask p = map (\<lambda>c. byte_of (255 - byte_val c)) p"

definition toy_lib :: lib where
  "toy_lib =
     \<lparr> aead_encrypt = (\<lambda>key nonce p. toy_mask p @ key @ nonce),
       aead_decrypt = (\<lambda>key nonce c.
          if length (key @ nonce) \<le> length c
             \<and> drop (length c - length (key @ nonce)) c = key @ nonce
          then Some (toy_mask (take (length c - length (key @ nonce)) c)) else None),
       hkdf_sha256 = (\<lambda>len salt info ikm.
          take len (ikm @ info @ salt @ replicate len (CHR ''0''))),
       argon2id_raw = (\<lambda>t m p password salt.
          take 32 (password @ salt @ replicate 32 (CHR ''0''))),
       guess_type = (\<lambda>name. None) \<rparr>"

definition empty_fs :: filesystem where
  "empty_fs = \<lparr> contents = Map.empty, write_protected = {}, journal = [] \<rparr>"

definition counting_tape :: entropy where
  "counting_tape = \<lparr> tape = (\<lambda>n. byte_of (7 * n + 3)), pos = 0 \<rparr>"

definition locked_world :: world where
  "locked_world =
     \<lparr> fs = empty_fs,
       db = \<lparr> file_table = [], locked = False \<rparr>,
       rng = counting_tape,
       crypto = \<lparr> master_key = None, is_unlocked_flag = False \<rparr>,
       clock = 0 \<rparr>"

definition alice :: user where
  "alice = \<lparr> id_user = 1, username = ''alice'' \<rparr>"

text \<open>A world whose vault directory holds one five-byte blob.\<close>

definition blob_world :: world where
  "blob_world =
     locked_world\<lparr> fs := empty_fs\<lparr> contents := [''/opt/vaultusb/vault/blob'' \<mapsto> ''12345''] \<rparr> \<rparr>"

definition ones_tape :: entropy where
  "ones_tape = \<lparr> tape = (\<lambda>n. byte_of 255), pos = 0 \<rparr>"

text \<open>The entropy source positioned where the hasher drew its salt while sealing
  from \<open>counting_tape\<close>; a master key.\<close>

definition replay_tape :: entropy where
  "replay_tape = counting_tape\<lparr>pos := 32\<rparr>"

definition demo_master_key :: bytes where
  "demo_master_key = replicate 32 (CHR ''k'')"

text \<open>The envelope that sealing \<open>demo_master_key\<close> under the password \<open>Secret123\<close>
  returns, with the stand-in primitives and the default configuration.\<close>

definition demo_envelope :: "string \<rightharpoonup> string" where
  "demo_envelope =
     projr (fst (seal_master_key toy_lib default_config demo_master_key ''Secret123''
                   counting_tape))"

text \<open>The vault unlocked on \<open>demo_master_key\<close>; the same with one plaintext file.\<close>

definition unlocked_world :: world where
  "unlocked_world =
     locked_world\<lparr> crypto := \<lparr> master_key = Some demo_master_key, is_unlocked_flag = True \<rparr> \<rparr>"

definition plain_world :: world where
  "plain_world =
     unlocked_world\<lparr> fs := empty_fs\<lparr> contents := [''/opt/vaultusb/vault/blob'' \<mapsto> ''hello vault''] \<rparr> \<rparr>"

text \<open>The unlocked vault with a database that refuses commits.\<close>

definition dblocked_world :: world where
  "dblocked_world = unlocked_world\<lparr> db := \<lparr> file_table = [], locked = True \<rparr> \<rparr>"

text \<open>An unlocked vault with two active records of owner 1: the blob of \<open>f1\<close>
  carries a wrong tag and is write-protected, the blob of \<open>f3\<close> is what
  \<open>toy_lib\<close> makes of \<open>hello vault\<close> under the file key.\<close>

definition row_f1 :: file_row where
  "row_f1 = \<lparr> id_file = ''f1'', original_name = ''a.txt'', encrypted_name = ''blob'',
              size_file = 11, mime_type = ''text/plain'', created_at = 0, modified_at = 0,
              user_id = 1, is_deleted = False \<rparr>"

definition row_f3 :: file_row where
  "row_f3 = \<lparr> id_file = ''f3'', original_name = ''note.txt'', encrypted_name = ''good'',
              size_file = 11, mime_type = ''text/plain'', created_at = 0, modified_at = 0,
              user_id = 1, is_deleted = False \<rparr>"

definition catalog_world :: world where
  "catalog_world =
     unlocked_world
       \<lparr> db := \<lparr> file_table = [row_f1, row_f3], locked = False \<rparr>,
         fs := \<lparr> contents =
                  [''/opt/vaultusb/vault/blob'' \<mapsto>
                     ''0123456789ab'' @ toy_mask ''hello vault'' @ replicate 32 (CHR ''x'') @ ''0123456789ab'',
                   ''/opt/vaultusb/vault/good'' \<mapsto>
                     ''0123456789ab'' @ toy_mask ''hello vault'' @ demo_master_key @ ''0123456789ab''],
                 write_protected = {''/opt/vaultusb/vault/blob''},
                 journal = [] \<rparr> \<rparr>"

section \<open>Properties\<close>

subsection \<open>Base64 and the Argon2 encoded string\<close>

lemma byte_val_lt: "byte_val a < 256"
  by (simp add: byte_val_def)

lemma byte_of_val: "byte_of (byte_val a) = a"
  by (simp add: byte_of_def byte_val_def)

lemma index_of_nth:
  "distinct xs \<Longrightarrow> i < length xs \<Longrightarrow> index_of (xs ! i) xs = Some i"
proof (induction xs arbitrary: i)
  case Nil
  then show ?case by simp
next
  case (Cons x xs)
  show ?case
  proof (cases i)
    case 0
    then show ?thesis by simp
  next
    case (Suc j)
    with Cons.prems have "j < length xs" "xs ! j \<noteq> x" by auto
    with Cons.IH [of j] Cons.prems Suc show ?thesis by auto
  qed
qed

lemma b64_alphabet_distinct: "distinct b64_alphabet"
  by (simp add: b64_alphabet_def)

lemma b64_alphabet_length: "length b64_alphabet = 64"
  by (simp add: b64_alphabet_def)

lemma b64_alphabet_no_pad: "CHR ''='' \<notin> set b64_alphabet"
  by (simp add: b64_alphabet_def)

lemma b64_index_char: "i < 64 \<Longrightarrow> b64_index (b64_char i) = Some i"
  unfolding b64_index_def b64_char_def
  by (rule index_of_nth) (simp_all add: b64_alphabet_distinct b64_alphabet_length)

lemma b64_char_no_pad: "i < 64 \<Longrightarrow> b64_char i \<noteq> CHR ''=''"
proof
  assume "i < 64" and eq: "b64_char i = CHR ''=''"
  then have "b64_alphabet ! i \<in> set b64_alphabet"
    by (simp add: b64_alphabet_length)
  with eq b64_alphabet_no_pad show False
    by (simp add: b64_char_def)
qed

lemma nat_sextets:
  fixes a b c :: nat
  assumes "a < 256" "b < 256" "c < 256"
  shows "a div 4 < 64"
    and "a mod 4 * 16 < 64"
    and "a mod 4 * 16 + b div 16 < 64"
    and "b mod 16 * 4 < 64"
    and "b mod 16 * 4 + c div 64 < 64"
    and "c mod 64 < 64"
proof -
  have m4: "a mod 4 < 4" and m16: "b mod 16 < 16" by simp_all
  show "a div 4 < 64" using assms(1) by simp
  show "c mod 64 < 64" by simp
  have d16: "b div 16 < 16" using assms(2) by simp
  have d64: "c div 64 < 4" using assms(3) by simp
  show "a mod 4 * 16 < 64" using m4 by linarith
  show "a mod 4 * 16 + b div 16 < 64" using m4 d16 by linarith
  show "b mod 16 * 4 < 64" using m16 by linarith
  show "b mod 16 * 4 + c div 64 < 64" using m16 d64 by linarith
qed

lemma nat_sextet_join:
  fixes a b c :: nat
  assumes "b < 256" "c < 256"
  shows "a div 4 * 4 + (a mod 4 * 16) div 16 = a"
    and "a div 4 * 4 + (a mod 4 * 16 + b div 16) div 16 = a"
    and "(a mod 4 * 16 + b div 16) mod 16 * 16 + (b mod 16 * 4) div 4 = b"
    and "(a mod 4 * 16 + b div 16) mod 16 * 16 + (b mod 16 * 4 + c div 64) div 4 = b"
    and "(b mod 16 * 4 + c div 64) mod 4 * 64 + c mod 64 = c"
proof -
  have d16: "b div 16 < 16" using assms(1) by simp
  have d64: "c div 64 < 4" using assms(2) by simp
  show "a div 4 * 4 + (a mod 4 * 16) div 16 = a" by simp
  show "a div 4 * 4 + (a mod 4 * 16 + b div 16) div 16 = a" using d16 by simp
  show "(a mod 4 * 16 + b div 16) mod 16 * 16 + (b mod 16 * 4) div 4 = b" using d16 by simp
  show "(a mod 4 * 16 + b div 16) mod 16 * 16 + (b mod 16 * 4 + c div 64) div 4 = b"
    using d16 d64 by simp
  show "(b mod 16 * 4 + c div 64) mod 4 * 64 + c mod 64 = c" using d64 by simp
qed

lemmas sextet_bounds =
  nat_sextets [OF byte_val_lt byte_val_lt byte_val_lt]

lemmas sextet_join =
  nat_sextet_join [OF byte_val_lt byte_val_lt]

lemma a2b_char_steps:
  assumes "i < 64"
  shows "a2b_base64 0 l p out (b64_char i # cs) = a2b_base64 1 i 0 out cs"
    and "a2b_base64 1 l p out (b64_char i # cs)
           = a2b_base64 2 (i mod 16) 0 (out @ [byte_of (l * 4 + i div 16)]) cs"
    and "a2b_base64 2 l p out (b64_char i # cs)
           = a2b_base64 3 (i mod 4) 0 (out @ [byte_of (l * 16 + i div 4)]) cs"
    and "a2b_base64 3 l p out (b64_char i # cs)
           = a2b_base64 0 0 0 (out @ [byte_of (l * 64 + i)]) cs"
  using assms by (simp_all add: b64_char_no_pad b64_index_char)

lemma a2b_pad_steps:
  "a2b_base64 2 l 0 out (CHR ''='' # cs) = a2b_base64 2 l 1 out cs"
  "a2b_base64 2 l 1 out (CHR ''='' # cs) = Inr out"
  "a2b_base64 3 l 0 out (CHR ''='' # cs) = Inr out"
  "a2b_base64 0 l p out [] = Inr out"
  by simp_all

lemma a2b_base64_b64encode:
  "a2b_base64 0 0 0 out (b64encode xs) = Inr (out @ xs)"
proof (induction xs arbitrary: out rule: b64encode.induct)
  case 1
  show ?case by (simp only: b64encode.simps a2b_pad_steps append_Nil2)
next
  case (2 a)
  show ?case
    by (simp only: b64encode.simps a2b_char_steps sextet_bounds a2b_pad_steps
                   sextet_join byte_of_val)
next
  case (3 a b)
  show ?case
    by (simp only: b64encode.simps a2b_char_steps sextet_bounds a2b_pad_steps
                   sextet_join byte_of_val append_Cons append_Nil append_assoc)
next
  case (4 a b c rest)
  have "a2b_base64 0 0 0 out (b64encode (a # b # c # rest))
        = a2b_base64 0 0 0 (out @ [a, b, c]) (b64encode rest)"
    by (simp only: b64encode.simps append_Cons append_Nil append_assoc a2b_char_steps
                   sextet_bounds sextet_join byte_of_val)
  then show ?case
    by (simp only: "4.IH" append_Cons append_Nil append_assoc)
qed

lemma b64_alphabet_ascii: "\<forall>c \<in> set b64_alphabet. byte_val c < 128"
  by (simp add: b64_alphabet_def byte_val_def)

lemma b64_char_ascii: "i < 64 \<Longrightarrow> byte_val (b64_char i) < 128"
  using b64_alphabet_ascii nth_mem [of i b64_alphabet]
  by (simp add: b64_char_def b64_alphabet_length)

lemma pad_ascii: "byte_val (CHR ''='') < 128"
  by (simp add: byte_val_def)

lemma b64encode_ascii: "\<not> list_ex (\<lambda>c. 128 \<le> byte_val c) (b64encode xs)"
proof (induction xs rule: b64encode.induct)
  case 1
  show ?case by simp
next
  case (2 a)
  show ?case
    using b64_char_ascii [OF sextet_bounds(1), of a] b64_char_ascii [OF sextet_bounds(2), of a]
      pad_ascii
    by (simp add: not_le)
next
  case (3 a b)
  show ?case
    using b64_char_ascii [OF sextet_bounds(1), of a]
      b64_char_ascii [OF sextet_bounds(3), of a b]
      b64_char_ascii [OF sextet_bounds(4), of b] pad_ascii
    by (simp add: not_le)
next
  case (4 a b c rest)
  then show ?case
    using b64_char_ascii [OF sextet_bounds(1), of a]
      b64_char_ascii [OF sextet_bounds(3), of a b]
      b64_char_ascii [OF sextet_bounds(5), of b c]
      b64_char_ascii [OF sextet_bounds(6), of c]
    by (simp add: not_le)
qed

lemma b64decode_b64encode: "b64decode (b64encode xs) = Inr xs"
  by (simp only: b64decode_def b64encode_ascii if_False a2b_base64_b64encode append_Nil)

lemma rstrip_pad_keeps_front:
  assumes "z \<noteq> CHR ''=''"
  shows "\<exists>t. rstrip_pad (ys @ z # zs) = ys @ z # t"
proof (cases "\<forall>c \<in> set zs. c = CHR ''=''")
  case True
  then have "rstrip_pad (ys @ z # zs) = ys @ [z]"
    using assms by (simp add: rstrip_pad_def dropWhile_append)
  then show ?thesis by simp
next
  case False
  then have "rstrip_pad (ys @ z # zs) = ys @ z # rev (dropWhile (\<lambda>c. c = CHR ''='') (rev zs))"
    by (auto simp add: rstrip_pad_def dropWhile_append)
  then show ?thesis by blast
qed

lemma b64encode_Cons: "\<exists>t. b64encode (d # rest) = b64_char (byte_val d div 4) # t"
proof (cases rest)
  case Nil
  then show ?thesis by simp
next
  case (Cons b r1)
  then show ?thesis by (cases r1) simp_all
qed

lemma b64encode_nopad_front:
  "\<exists>t. rstrip_pad (b64encode (a # b # c # d # rest)) =
         [b64_char (byte_val a div 4),
          b64_char (byte_val a mod 4 * 16 + byte_val b div 16),
          b64_char (byte_val b mod 16 * 4 + byte_val c div 64),
          b64_char (byte_val c mod 64),
          b64_char (byte_val d div 4)] @ t"
proof -
  obtain t where t: "b64encode (d # rest) = b64_char (byte_val d div 4) # t"
    using b64encode_Cons by blast
  have ne: "b64_char (byte_val d div 4) \<noteq> CHR ''=''"
    by (rule b64_char_no_pad) (rule sextet_bounds)
  from rstrip_pad_keeps_front [OF ne,
        of "[b64_char (byte_val a div 4),
          b64_char (byte_val a mod 4 * 16 + byte_val b div 16),
          b64_char (byte_val b mod 16 * 4 + byte_val c div 64),
          b64_char (byte_val c mod 64)]" t]
  show ?thesis by (simp add: t)
qed

lemma str_nat_nonempty: "str_nat n \<noteq> []"
  by (subst str_nat.simps) simp

lemma take_append_long: "n \<le> length xs \<Longrightarrow> take n (xs @ ys) = take n xs"
  by simp

lemma token_bytes_length: "length (fst (token_bytes n e)) = n"
  by (simp add: token_bytes_def)

lemma four_or_more:
  assumes "4 \<le> length xs"
  obtains a b c d rest where "xs = a # b # c # d # rest"
proof -
  from assms obtain a r1 where 1: "xs = a # r1" by (cases xs) auto
  with assms obtain b r2 where 2: "r1 = b # r2" by (cases r1) auto
  with 1 assms obtain c r3 where 3: "r2 = c # r3" by (cases r2) auto
  with 1 2 assms obtain d r4 where 4: "r3 = d # r4" by (cases r3) auto
  from 1 2 3 4 that show thesis by blast
qed

lemma b64encode_nopad_length:
  assumes "4 \<le> length xs"
  shows "5 \<le> length (rstrip_pad (b64encode xs))"
proof -
  from assms obtain a b c d rest where xs: "xs = a # b # c # d # rest"
    by (rule four_or_more)
  from b64encode_nopad_front [of a b c d rest] obtain t where
    "rstrip_pad (b64encode xs) =
       [b64_char (byte_val a div 4),
        b64_char (byte_val a mod 4 * 16 + byte_val b div 16),
        b64_char (byte_val b mod 16 * 4 + byte_val c div 64),
        b64_char (byte_val c mod 64),
        b64_char (byte_val d div 4)] @ t"
    unfolding xs by blast
  then show ?thesis by simp
qed

lemma b64encode_nopad_hd:
  assumes "4 \<le> length xs"
  shows "take 1 (rstrip_pad (b64encode xs)) = [b64_char (byte_val (hd xs) div 4)]"
proof -
  from assms obtain a b c d rest where xs: "xs = a # b # c # d # rest"
    by (rule four_or_more)
  from b64encode_nopad_front [of a b c d rest] obtain t where
    "rstrip_pad (b64encode xs) =
       [b64_char (byte_val a div 4),
        b64_char (byte_val a mod 4 * 16 + byte_val b div 16),
        b64_char (byte_val b mod 16 * 4 + byte_val c div 64),
        b64_char (byte_val c mod 64),
        b64_char (byte_val d div 4)] @ t"
    unfolding xs by blast
  then show ?thesis by (simp add: xs)
qed

lemma argon2_encode_split:
  "argon2_encode cfg salt raw =
     (''$argon2id$v=19$m='' @ str_nat (argon2_memory_cost cfg) @
      '',t='' @ str_nat (argon2_time_cost cfg) @
      '',p='' @ str_nat (argon2_parallelism cfg) @
      ''$'' @ rstrip_pad (b64encode salt)) @ ''$'' @ rstrip_pad (b64encode raw)"
  by (simp add: argon2_encode_def)

lemma argon2_front_length:
  assumes "4 \<le> length salt"
  shows "32 \<le> length (''$argon2id$v=19$m='' @ str_nat (argon2_memory_cost cfg) @
      '',t='' @ str_nat (argon2_time_cost cfg) @
      '',p='' @ str_nat (argon2_parallelism cfg) @
      ''$'' @ rstrip_pad (b64encode salt))"
proof -
  have "1 \<le> length (str_nat (argon2_memory_cost cfg))"
       "1 \<le> length (str_nat (argon2_time_cost cfg))"
       "1 \<le> length (str_nat (argon2_parallelism cfg))"
    using str_nat_nonempty by (simp_all add: Suc_le_eq)
  with b64encode_nopad_length [OF assms] show ?thesis by simp
qed

lemma argon2_key_no_hash:
  assumes "4 \<le> length salt"
  shows "take 32 (argon2_encode cfg salt raw) =
         take 32 (''$argon2id$v=19$m='' @ str_nat (argon2_memory_cost cfg) @
                  '',t='' @ str_nat (argon2_time_cost cfg) @
                  '',p='' @ str_nat (argon2_parallelism cfg) @
                  ''$'' @ rstrip_pad (b64encode salt))"
  unfolding argon2_encode_split
  by (rule take_append_long) (rule argon2_front_length [OF assms])

lemma argon2_key_length:
  assumes "4 \<le> length salt"
  shows "length (take 32 (argon2_encode cfg salt raw)) = 32"
  unfolding argon2_key_no_hash [OF assms]
  using argon2_front_length [OF assms, of cfg] by simp

lemma argon2_key_indep:
  assumes "4 \<le> length salt"
  shows "take 32 (argon2_encode cfg salt raw) = take 32 (argon2_encode cfg salt raw')"
  by (simp only: argon2_key_no_hash [OF assms])

lemma str_nat_65536: "str_nat 65536 = ''65536''"
  by (simp add: str_nat.simps byte_of_def char_of_def bit_0)

lemma str_nat_3: "str_nat 3 = ''3''"
  by (simp add: str_nat.simps byte_of_def char_of_def bit_0)

lemma str_nat_1: "str_nat 1 = ''1''"
  by (simp add: str_nat.simps byte_of_def char_of_def bit_0)

lemma str_nat_Suc0: "str_nat (Suc 0) = ''1''"
  by (simp add: str_nat.simps byte_of_def char_of_def bit_0)

lemmas str_nat_defaults = str_nat_65536 str_nat_3 str_nat_1 str_nat_Suc0

lemma argon2_default_key:
  assumes "4 \<le> length salt"
  shows "take 32 (argon2_encode default_config salt raw) =
         ''$argon2id$v=19$m=65536,t=3,p=1$'' @ [b64_char (byte_val (hd salt) div 4)]"
proof -
  have "take 32 (argon2_encode default_config salt raw) =
        ''$argon2id$v=19$m=65536,t=3,p=1$'' @ take 1 (rstrip_pad (b64encode salt))"
    unfolding argon2_key_no_hash [OF assms]
    by (simp add: default_config_def str_nat_defaults)
  then show ?thesis by (simp only: b64encode_nopad_hd [OF assms])
qed

subsection \<open>Lock gating\<close>

text \<open>Claim C5. Whenever the vault is locked, \<open>store_file\<close>, \<open>retrieve_file\<close> and
  \<open>delete_file\<close> each raise the RuntimeError "Vault is locked", and the world
  (filesystem, database, entropy, key state) after the call is the world before it.
  \<open>retrieve_file\<close> has no write in its body, so it returns no world at all.\<close>

theorem lock_gating:
  assumes "\<not> is_unlocked (crypto w)"
  shows "store_file L cfg w file_data name u = (Inl (RuntimeError ''Vault is locked''), w)
       \<and> retrieve_file L cfg w file_id u = Inl (RuntimeError ''Vault is locked'')
       \<and> delete_file cfg w file_id u = (Inl (RuntimeError ''Vault is locked''), w)"
  using assms by (simp add: store_file_def retrieve_file_def delete_file_def)

theorem lock_gating_witness:
  "\<not> is_unlocked (crypto locked_world)
   \<and> store_file toy_lib default_config locked_world ''hello vault'' ''note.txt'' alice
       = (Inl (RuntimeError ''Vault is locked''), locked_world)
   \<and> retrieve_file toy_lib default_config locked_world ''f1'' alice
       = Inl (RuntimeError ''Vault is locked'')
   \<and> delete_file default_config locked_world ''f1'' alice
       = (Inl (RuntimeError ''Vault is locked''), locked_world)"
proof -
  have h: "\<not> is_unlocked (crypto locked_world)"
    by (simp add: is_unlocked_def locked_world_def)
  show ?thesis
    using h lock_gating [OF h, of toy_lib default_config "''hello vault''" "''note.txt''"
                          alice "''f1''"]
    by simp
qed

subsection \<open>Secure eraser\<close>

lemma overwrite_passes_3:
  "overwrite_passes 3 p n w =
     (let w1 = w\<lparr>rng := snd (token_bytes n (rng w)),
                 fs := overwrite_sync (fs w) p (fst (token_bytes n (rng w)))\<rparr>;
          w2 = w1\<lparr>rng := snd (token_bytes n (rng w1)),
                  fs := overwrite_sync (fs w1) p (fst (token_bytes n (rng w1)))\<rparr>
      in w2\<lparr>rng := snd (token_bytes n (rng w2)),
             fs := overwrite_sync (fs w2) p (fst (token_bytes n (rng w2)))\<rparr>)"
  by (simp add: numeral_3_eq_3 Let_def split_beta)

text \<open>Claim C9. On a path with no file, \<open>secure_delete\<close> returns True and leaves the
  world as it was. On an existing file that can be opened for writing it returns
  True after three passes, each of which replaces the whole content by as many
  bytes as the file has, drawn from the next unread stretch of the entropy tape,
  and syncs; the directory entry is removed after the third pass.\<close>

theorem secure_delete_contract:
  "(\<not> path_exists (fs w) p \<longrightarrow> secure_delete w p = (True, w))
   \<and> (contents (fs w) p = Some old \<and> p \<notin> write_protected (fs w) \<longrightarrow>
        (let n = length old; t = tape (rng w); q = pos (rng w);
             r1 = map t [q ..< q + n];
             r2 = map t [q + n ..< q + n + n];
             r3 = map t [q + n + n ..< q + n + n + n];
             w' = snd (secure_delete w p)
         in fst (secure_delete w p) = True
            \<and> length r1 = length old \<and> length r2 = length old \<and> length r3 = length old
            \<and> journal (fs w') =
                journal (fs w) @ [Wrote p r1, Synced p, Wrote p r2, Synced p,
                                  Wrote p r3, Synced p, Unlinked p]
            \<and> contents (fs w') p = None))"
  by (simp add: secure_delete_def overwrite_passes_3 Let_def path_exists_def
                token_bytes_def overwrite_sync_def unlink_def)

theorem secure_delete_contract_witness:
  "(\<not> path_exists (fs locked_world) ''/opt/vaultusb/vault/blob''
    \<and> secure_delete locked_world ''/opt/vaultusb/vault/blob'' = (True, locked_world))
   \<and> (contents (fs blob_world) ''/opt/vaultusb/vault/blob'' = Some ''12345''
      \<and> ''/opt/vaultusb/vault/blob'' \<notin> write_protected (fs blob_world)
      \<and> fst (secure_delete blob_world ''/opt/vaultusb/vault/blob'') = True
      \<and> journal (fs (snd (secure_delete blob_world ''/opt/vaultusb/vault/blob''))) =
         [Wrote ''/opt/vaultusb/vault/blob'' (map (tape counting_tape) [0 ..< 5]),
          Synced ''/opt/vaultusb/vault/blob'',
          Wrote ''/opt/vaultusb/vault/blob'' (map (tape counting_tape) [5 ..< 10]),
          Synced ''/opt/vaultusb/vault/blob'',
          Wrote ''/opt/vaultusb/vault/blob'' (map (tape counting_tape) [10 ..< 15]),
          Synced ''/opt/vaultusb/vault/blob'',
          Unlinked ''/opt/vaultusb/vault/blob'']
      \<and> contents (fs (snd (secure_delete blob_world ''/opt/vaultusb/vault/blob'')))
           ''/opt/vaultusb/vault/blob'' = None)"
proof -
  have a: "\<not> path_exists (fs locked_world) ''/opt/vaultusb/vault/blob''"
    by (simp add: path_exists_def locked_world_def empty_fs_def)
  have b: "contents (fs blob_world) ''/opt/vaultusb/vault/blob'' = Some ''12345''
           \<and> ''/opt/vaultusb/vault/blob'' \<notin> write_protected (fs blob_world)"
    by (simp add: blob_world_def locked_world_def empty_fs_def)
  have c: "journal (fs blob_world) = []" "rng blob_world = counting_tape" "pos counting_tape = 0"
    by (simp_all add: blob_world_def locked_world_def empty_fs_def counting_tape_def)
  have d: "secure_delete locked_world ''/opt/vaultusb/vault/blob'' = (True, locked_world)"
    using a secure_delete_contract [of locked_world "''/opt/vaultusb/vault/blob''"] by blast
  show ?thesis
    using a b c d
      secure_delete_contract [of blob_world "''/opt/vaultusb/vault/blob''" "''12345''"]
    by (simp add: Let_def eval_nat_numeral)
qed

subsection \<open>The key that seals the master key\<close>

lemma toy_mask_involution: "toy_mask (toy_mask p) = p"
proof -
  have "byte_of (255 - byte_val (byte_of (255 - byte_val c))) = c" for c
  proof -
    have "byte_val (byte_of (255 - byte_val c)) = 255 - byte_val c"
      by (simp add: byte_val_def byte_of_def)
    moreover have "255 - (255 - byte_val c) = byte_val c"
      using byte_val_lt [of c] by simp
    ultimately show ?thesis by (simp add: byte_of_val)
  qed
  then show ?thesis by (simp add: toy_mask_def comp_def)
qed

lemma toy_aead_round_trip: "aead_round_trip toy_lib"
  by (simp add: aead_round_trip_def toy_lib_def toy_mask_involution)

lemma toy_hkdf_length: "hkdf_length toy_lib"
  by (auto simp add: hkdf_length_def toy_lib_def)

lemma argon2_encode_long:
  assumes "4 \<le> length salt"
  shows "32 \<le> length (argon2_encode cfg salt raw)"
  using argon2_key_length [OF assms, of cfg raw] by simp

lemma hasher_key_length:
  "min (length (argon2_encode cfg (fst (token_bytes 16 e)) raw)) 32 = 32"
  using argon2_encode_long [of "fst (token_bytes 16 e)" cfg raw]
  by (simp add: token_bytes_length)

lemma hasher_salt_long: "4 \<le> length (fst (token_bytes 16 e))"
  by (simp add: token_bytes_length)

lemma argon2_prefix10:
  "take 10 (take 32 (argon2_encode cfg salt raw)) = ''$argon2id$''"
  by (simp add: argon2_encode_def)

lemma default_config_accepted: "argon2_refuses default_config = None"
  by (simp add: argon2_refuses_def default_config_def)

lemma derive_key_accepted:
  assumes "argon2_refuses cfg = None"
  shows "derive_key_from_password L cfg password salt e =
           (Inr (argon2_encode cfg (fst (token_bytes 16 e))
                   (argon2id_raw L (argon2_time_cost cfg) (argon2_memory_cost cfg)
                      (argon2_parallelism cfg) password (fst (token_bytes 16 e)))),
            snd (token_bytes 16 e))"
  using assms
  by (simp add: derive_key_from_password_def argon2_hasher_hash_def split_beta)

lemma derive_key_refused:
  assumes "argon2_refuses cfg = Some x"
  shows "derive_key_from_password L cfg password salt e = (Inl x, snd (token_bytes 16 e))"
  using assms
  by (simp add: derive_key_from_password_def argon2_hasher_hash_def split_beta)

lemma seal_master_key_eq:
  assumes "argon2_refuses cfg = None"
  shows "fst (seal_master_key L cfg mk password e) =
     (let e1 = snd (token_bytes 32 e);
          hsalt = fst (token_bytes 16 e1);
          key = take 32 (argon2_encode cfg hsalt
                  (argon2id_raw L (argon2_time_cost cfg) (argon2_memory_cost cfg)
                     (argon2_parallelism cfg) password hsalt));
          nonce = fst (token_bytes 12 (snd (token_bytes 16 e1)))
      in Inr [''salt'' \<mapsto> b64encode (fst (token_bytes 32 e)),
              ''nonce'' \<mapsto> b64encode nonce,
              ''sealed_data'' \<mapsto> b64encode (aead_encrypt L key nonce mk)])"
  by (simp add: seal_master_key_def derive_key_accepted [OF assms]
        Let_def split_beta ChaCha20Poly1305_def cipher_encrypt_def
        hasher_key_length token_bytes_length)

lemma unseal_body_eq:
  assumes "argon2_refuses cfg = None"
      and "envelope_field env ''salt'' = Inr s"
      and "envelope_field env ''nonce'' = Inr n"
      and "envelope_field env ''sealed_data'' = Inr d"
  shows "fst (unseal_body L cfg env password e) =
           cipher_decrypt L
             (take 32 (argon2_encode cfg (fst (token_bytes 16 e))
                (argon2id_raw L (argon2_time_cost cfg) (argon2_memory_cost cfg)
                   (argon2_parallelism cfg) password (fst (token_bytes 16 e))))) n d"
  using assms(2-4)
  by (simp add: unseal_body_def derive_key_accepted [OF assms(1)]
        Let_def split_beta ChaCha20Poly1305_def hasher_key_length)

lemma fst_unseal_master_key:
  "fst (unseal_master_key L cfg env pw e) =
     (case fst (unseal_body L cfg env pw e) of
        Inl x \<Rightarrow> Inl (ValueError ''Failed to unseal master key'')
      | Inr mk \<Rightarrow> Inr mk)"
  by (cases "unseal_body L cfg env pw e")
     (simp add: unseal_master_key_def split: sum.splits)

lemma unseal_master_key_eq:
  assumes "argon2_refuses cfg = None"
      and "envelope_field env ''salt'' = Inr s"
      and "envelope_field env ''nonce'' = Inr n"
      and "envelope_field env ''sealed_data'' = Inr d"
  shows "fst (unseal_master_key L cfg env password e) =
           (if length n \<noteq> 12 then Inl (ValueError ''Failed to unseal master key'')
            else case aead_decrypt L
                   (take 32 (argon2_encode cfg (fst (token_bytes 16 e))
                      (argon2id_raw L (argon2_time_cost cfg) (argon2_memory_cost cfg)
                         (argon2_parallelism cfg) password (fst (token_bytes 16 e))))) n d of
                   None \<Rightarrow> Inl (ValueError ''Failed to unseal master key'')
                 | Some mk \<Rightarrow> Inr mk)"
  unfolding fst_unseal_master_key unseal_body_eq [OF assms]
  by (simp add: cipher_decrypt_def split: option.splits)

lemma sealed_fields:
  "envelope_field [''salt'' \<mapsto> b64encode s, ''nonce'' \<mapsto> b64encode n,
                   ''sealed_data'' \<mapsto> b64encode d] ''salt'' = Inr s"
  "envelope_field [''salt'' \<mapsto> b64encode s, ''nonce'' \<mapsto> b64encode n,
                   ''sealed_data'' \<mapsto> b64encode d] ''nonce'' = Inr n"
  "envelope_field [''salt'' \<mapsto> b64encode s, ''nonce'' \<mapsto> b64encode n,
                   ''sealed_data'' \<mapsto> b64encode d] ''sealed_data'' = Inr d"
  by (simp_all add: envelope_field_def b64decode_b64encode del: b64encode.simps)

lemma hd_token_bytes: "0 < n \<Longrightarrow> hd (fst (token_bytes n e)) = tape e (pos e)"
  by (simp add: token_bytes_def hd_map)

lemma b64_char_0_63: "b64_char 0 = CHR ''A''" "b64_char 63 = CHR ''/''"
  by (simp_all add: b64_char_def b64_alphabet_def)

lemma b64_char_56: "b64_char 56 = CHR ''4''"
  by (simp add: b64_char_def b64_alphabet_def)

lemma replay_tape_draws:
  "token_bytes 16 replay_tape =
     (fst (token_bytes 16 (snd (token_bytes 32 counting_tape))),
      snd (token_bytes 16 (snd (token_bytes 32 counting_tape))))"
  by (simp add: token_bytes_def replay_tape_def counting_tape_def)

lemma seal_time_sextet:
  "byte_val (hd (fst (token_bytes 16 (snd (token_bytes 32 counting_tape))))) div 4 = 56"
  by (simp add: hd_token_bytes token_bytes_def counting_tape_def byte_val_def byte_of_def)

lemma unseal_time_sextet:
  "byte_val (hd (fst (token_bytes 16 ones_tape))) div 4 = 63"
  by (simp add: hd_token_bytes ones_tape_def byte_val_def byte_of_def)

lemma demo_envelope_eq:
  "demo_envelope =
     [''salt'' \<mapsto> b64encode (fst (token_bytes 32 counting_tape)),
      ''nonce'' \<mapsto> b64encode
         (fst (token_bytes 12 (snd (token_bytes 16 (snd (token_bytes 32 counting_tape)))))),
      ''sealed_data'' \<mapsto> b64encode
         (aead_encrypt toy_lib ''$argon2id$v=19$m=65536,t=3,p=1$4''
            (fst (token_bytes 12 (snd (token_bytes 16 (snd (token_bytes 32 counting_tape))))))
            demo_master_key)]"
  unfolding demo_envelope_def seal_master_key_eq [OF default_config_accepted] Let_def sum.sel
    argon2_default_key [OF hasher_salt_long] seal_time_sextet b64_char_56
  by simp

text \<open>Claim C10. Whenever the hasher accepts the configured cost parameters, then for
  every password and state of the entropy source the value returned by
  \<open>derive_key_from_password\<close> is the PHC-encoded Argon2 string, and the 32-byte key
  under which \<open>seal_master_key\<close> encrypts the master key, and under which
  \<open>unseal_master_key\<close> opens an envelope whose fields decode (returning what the
  AEAD primitive returns under that key, or ValueError when it rejects), is the
  first 32 bytes of that string. These bytes start with the ASCII characters
  \<open>$argon2id$\<close> and consist of \<open>$argon2id$v=19$m=M,t=T,p=P$\<close> followed by characters
  of the base64 salt that the hasher drew: no byte of the Argon2 tag, which alone
  depends on the password, is part of the key.\<close>

theorem sealing_key_is_encoded_prefix:
  assumes "argon2_refuses cfg = None"
  shows
  "(let e1 = snd (token_bytes 32 e);
        hsalt = fst (token_bytes 16 e1);
        encoded = argon2_encode cfg hsalt
                    (argon2id_raw L (argon2_time_cost cfg) (argon2_memory_cost cfg)
                       (argon2_parallelism cfg) password hsalt);
        key = take 32 encoded;
        nonce = fst (token_bytes 12 (snd (token_bytes 16 e1)))
    in fst (derive_key_from_password L cfg password salt e1) = Inr encoded
       \<and> fst (seal_master_key L cfg mk password e) =
           Inr [''salt'' \<mapsto> b64encode (fst (token_bytes 32 e)),
                ''nonce'' \<mapsto> b64encode nonce,
                ''sealed_data'' \<mapsto> b64encode (aead_encrypt L key nonce mk)]
       \<and> length key = 32
       \<and> take 10 key = ''$argon2id$''
       \<and> key = take 32 (''$argon2id$v=19$m='' @ str_nat (argon2_memory_cost cfg) @
                         '',t='' @ str_nat (argon2_time_cost cfg) @
                         '',p='' @ str_nat (argon2_parallelism cfg) @
                         ''$'' @ rstrip_pad (b64encode hsalt)))
   \<and> (envelope_field env ''salt'' = Inr s \<and> envelope_field env ''nonce'' = Inr n
        \<and> envelope_field env ''sealed_data'' = Inr d \<longrightarrow>
       (let hsalt' = fst (token_bytes 16 e');
            key' = take 32 (argon2_encode cfg hsalt'
                     (argon2id_raw L (argon2_time_cost cfg) (argon2_memory_cost cfg)
                        (argon2_parallelism cfg) password hsalt'))
        in fst (unseal_master_key L cfg env password e') =
             (if length n \<noteq> 12 then Inl (ValueError ''Failed to unseal master key'')
              else case aead_decrypt L key' n d of
                     None \<Rightarrow> Inl (ValueError ''Failed to unseal master key'')
                   | Some opened \<Rightarrow> Inr opened)
           \<and> length key' = 32
           \<and> take 10 key' = ''$argon2id$''
           \<and> key' = take 32 (''$argon2id$v=19$m='' @ str_nat (argon2_memory_cost cfg) @
                         '',t='' @ str_nat (argon2_time_cost cfg) @
                         '',p='' @ str_nat (argon2_parallelism cfg) @
                         ''$'' @ rstrip_pad (b64encode hsalt'))))"
proof -
  have a: "fst (derive_key_from_password L cfg password salt e1) =
           Inr (argon2_encode cfg (fst (token_bytes 16 e1))
             (argon2id_raw L (argon2_time_cost cfg) (argon2_memory_cost cfg)
                (argon2_parallelism cfg) password (fst (token_bytes 16 e1))))" for e1
    by (simp add: derive_key_accepted [OF assms])
  show ?thesis
    unfolding Let_def
    using seal_master_key_eq [OF assms, of L mk password e, unfolded Let_def]
      unseal_master_key_eq [OF assms, of env s n d L password e']
      argon2_key_length [OF hasher_salt_long]
      argon2_key_no_hash [OF hasher_salt_long]
      argon2_prefix10 a
    by blast
qed

theorem sealing_key_is_encoded_prefix_witness:
  "argon2_refuses default_config = None
   \<and> (envelope_field demo_envelope ''salt'' = Inr (fst (token_bytes 32 counting_tape))
      \<and> envelope_field demo_envelope ''nonce'' =
          Inr (fst (token_bytes 12 (snd (token_bytes 16 (snd (token_bytes 32 counting_tape))))))
      \<and> envelope_field demo_envelope ''sealed_data'' =
          Inr (aead_encrypt toy_lib ''$argon2id$v=19$m=65536,t=3,p=1$4''
                 (fst (token_bytes 12 (snd (token_bytes 16 (snd (token_bytes 32 counting_tape))))))
                 demo_master_key))
   \<and> length (fst (token_bytes 12 (snd (token_bytes 16 (snd (token_bytes 32 counting_tape))))))
       = 12
   \<and> take 32 (argon2_encode default_config (fst (token_bytes 16 replay_tape))
         (argon2id_raw toy_lib (argon2_time_cost default_config)
            (argon2_memory_cost default_config) (argon2_parallelism default_config)
            ''Secret123'' (fst (token_bytes 16 replay_tape))))
       = ''$argon2id$v=19$m=65536,t=3,p=1$4''
   \<and> fst (unseal_master_key toy_lib default_config demo_envelope ''Secret123'' replay_tape)
       = Inr demo_master_key"
proof -
  let ?nonce = "fst (token_bytes 12 (snd (token_bytes 16 (snd (token_bytes 32 counting_tape)))))"
  let ?sealed = "aead_encrypt toy_lib ''$argon2id$v=19$m=65536,t=3,p=1$4'' ?nonce demo_master_key"
  let ?key' = "take 32 (argon2_encode default_config (fst (token_bytes 16 replay_tape))
         (argon2id_raw toy_lib (argon2_time_cost default_config)
            (argon2_memory_cost default_config) (argon2_parallelism default_config)
            ''Secret123'' (fst (token_bytes 16 replay_tape))))"
  have h: "envelope_field demo_envelope ''salt'' = Inr (fst (token_bytes 32 counting_tape))
      \<and> envelope_field demo_envelope ''nonce'' = Inr ?nonce
      \<and> envelope_field demo_envelope ''sealed_data'' = Inr ?sealed"
    unfolding demo_envelope_eq by (simp only: sealed_fields)
  have nlen: "length ?nonce = 12" by (rule token_bytes_length)
  have key: "?key' = ''$argon2id$v=19$m=65536,t=3,p=1$4''"
    unfolding argon2_default_key [OF hasher_salt_long] replay_tape_draws fst_conv
      seal_time_sextet b64_char_56
    by simp
  have opened: "aead_decrypt toy_lib ?key' ?nonce ?sealed = Some demo_master_key"
    unfolding key using toy_aead_round_trip nlen
    by (simp add: aead_round_trip_def)
  from sealing_key_is_encoded_prefix [OF default_config_accepted, where L = toy_lib
      and env = demo_envelope and s = "fst (token_bytes 32 counting_tape)" and n = ?nonce
      and d = ?sealed and password = "''Secret123''" and e' = replay_tape] h
  have "fst (unseal_master_key toy_lib default_config demo_envelope ''Secret123'' replay_tape) =
          (if length ?nonce \<noteq> 12 then Inl (ValueError ''Failed to unseal master key'')
           else case aead_decrypt toy_lib ?key' ?nonce ?sealed of
                  None \<Rightarrow> Inl (ValueError ''Failed to unseal master key'')
                | Some opened \<Rightarrow> Inr opened)"
    unfolding Let_def by blast
  then have "fst (unseal_master_key toy_lib default_config demo_envelope ''Secret123''
                    replay_tape) = Inr demo_master_key"
    by (simp only: opened nlen option.case) simp
  with default_config_accepted h nlen key show ?thesis by blast
qed

subsection \<open>Password-derived key: dependence on the entropy source\<close>

lemma derive_default_key:
  "map_sum id (take 32) (fst (derive_key_from_password L default_config password salt e)) =
     Inr (''$argon2id$v=19$m=65536,t=3,p=1$'' @ [b64_char (byte_val (tape e (pos e)) div 4)])"
  by (simp only: derive_key_accepted [OF default_config_accepted] fst_conv map_sum.simps
        argon2_default_key [OF hasher_salt_long] hd_token_bytes [of 16 e, simplified])

lemma first_sextets:
  "byte_val (tape counting_tape (pos counting_tape)) div 4 = 0"
  "byte_val (tape ones_tape (pos ones_tape)) div 4 = 63"
  by (simp_all add: counting_tape_def ones_tape_def byte_val_def byte_of_def)

text \<open>Claim C2 (determinism of the unlock-key derivation) against the code. With the
  default configuration, for every password and every salt argument, two calls of
  \<open>derive_key_from_password\<close> made at two states of the entropy source both return,
  and return different values; already their first 32 bytes (the AEAD key) differ:
  the hasher draws a salt of its own on every call, and the argument \<open>salt\<close> is
  unused.\<close>

theorem derive_key_not_deterministic:
  "map_sum id (take 32)
     (fst (derive_key_from_password L default_config password salt counting_tape))
     = Inr ''$argon2id$v=19$m=65536,t=3,p=1$A''
   \<and> map_sum id (take 32)
       (fst (derive_key_from_password L default_config password salt ones_tape))
     = Inr ''$argon2id$v=19$m=65536,t=3,p=1$/''
   \<and> fst (derive_key_from_password L default_config password salt counting_tape)
     \<noteq> fst (derive_key_from_password L default_config password salt ones_tape)"
proof -
  have a: "map_sum id (take 32)
     (fst (derive_key_from_password L default_config password salt counting_tape))
     = Inr ''$argon2id$v=19$m=65536,t=3,p=1$A''"
    by (simp add: derive_default_key first_sextets b64_char_0_63)
  have b: "map_sum id (take 32)
       (fst (derive_key_from_password L default_config password salt ones_tape))
     = Inr ''$argon2id$v=19$m=65536,t=3,p=1$/''"
    by (simp add: derive_default_key first_sextets b64_char_0_63)
  have "map_sum id (take 32)
          (fst (derive_key_from_password L default_config password salt counting_tape))
     \<noteq> map_sum id (take 32)
          (fst (derive_key_from_password L default_config password salt ones_tape))"
    unfolding a b by simp
  then have "fst (derive_key_from_password L default_config password salt counting_tape)
     \<noteq> fst (derive_key_from_password L default_config password salt ones_tape)"
    by metis
  with a b show ?thesis by blast
qed

lemma unseal_of_seal:
  assumes "argon2_refuses cfg = None"
  shows "fst (unseal_body L cfg
          (projr (fst (seal_master_key L cfg mk pw1 e))) pw2 e') =
     cipher_decrypt L
       (take 32 (argon2_encode cfg (fst (token_bytes 16 e'))
          (argon2id_raw L (argon2_time_cost cfg) (argon2_memory_cost cfg)
             (argon2_parallelism cfg) pw2 (fst (token_bytes 16 e')))))
       (fst (token_bytes 12 (snd (token_bytes 16 (snd (token_bytes 32 e))))))
       (aead_encrypt L
          (take 32 (argon2_encode cfg (fst (token_bytes 16 (snd (token_bytes 32 e))))
             (argon2id_raw L (argon2_time_cost cfg) (argon2_memory_cost cfg)
                (argon2_parallelism cfg) pw1 (fst (token_bytes 16 (snd (token_bytes 32 e)))))))
          (fst (token_bytes 12 (snd (token_bytes 16 (snd (token_bytes 32 e))))))
          mk)"
  unfolding seal_master_key_eq [OF assms] Let_def sum.sel
  by (rule unseal_body_eq [OF assms]) (rule sealed_fields)+

text \<open>Claim C1 (seal/unseal round trip and rejection of a wrong password) against the
  code. Whenever the hasher accepts the cost parameters, the AEAD primitive opens
  what it sealed, and the hasher happens to draw at unseal time the salt it drew at
  seal time, \<open>unseal_master_key\<close> returns the master key for every pair of passwords
  \<open>pw1\<close>, \<open>pw2\<close>, equal or not: the password has no influence on the sealing key.\<close>

theorem unseal_ignores_password:
  assumes "argon2_refuses cfg = None"
      and "aead_round_trip L"
      and "fst (token_bytes 16 e') = fst (token_bytes 16 (snd (token_bytes 32 e)))"
  shows "\<exists>env. fst (seal_master_key L cfg mk pw1 e) = Inr env
             \<and> fst (unseal_master_key L cfg env pw2 e') = Inr mk"
proof -
  let ?hs = "fst (token_bytes 16 (snd (token_bytes 32 e)))"
  let ?nonce = "fst (token_bytes 12 (snd (token_bytes 16 (snd (token_bytes 32 e)))))"
  let ?key = "\<lambda>pw. take 32 (argon2_encode cfg ?hs
          (argon2id_raw L (argon2_time_cost cfg) (argon2_memory_cost cfg)
             (argon2_parallelism cfg) pw ?hs))"
  obtain env where env: "fst (seal_master_key L cfg mk pw1 e) = Inr env"
    unfolding seal_master_key_eq [OF assms(1)] Let_def by blast
  have keys: "?key pw2 = ?key pw1"
    by (rule argon2_key_indep) (rule hasher_salt_long)
  have klen: "length (?key pw1) = 32"
    by (rule argon2_key_length) (rule hasher_salt_long)
  have nlen: "length ?nonce = 12"
    by (rule token_bytes_length)
  have "fst (unseal_body L cfg env pw2 e') =
          cipher_decrypt L (?key pw2) ?nonce (aead_encrypt L (?key pw1) ?nonce mk)"
    using unseal_of_seal [OF assms(1), of L mk pw1 e pw2 e'] env assms(3) by simp
  also have "\<dots> = Inr mk"
    using assms(2) klen nlen unfolding keys
    by (simp add: cipher_decrypt_def aead_round_trip_def)
  finally have "fst (unseal_master_key L cfg env pw2 e') = Inr mk"
    by (simp add: fst_unseal_master_key)
  with env show ?thesis by blast
qed

theorem unseal_ignores_password_witness:
  "argon2_refuses default_config = None
   \<and> aead_round_trip toy_lib
   \<and> fst (token_bytes 16 replay_tape) = fst (token_bytes 16 (snd (token_bytes 32 counting_tape)))
   \<and> ''wrong'' \<noteq> ''Secret123''
   \<and> (\<exists>env. fst (seal_master_key toy_lib default_config demo_master_key ''Secret123''
                    counting_tape) = Inr env
            \<and> fst (unseal_master_key toy_lib default_config env ''wrong'' replay_tape)
                = Inr demo_master_key)"
proof -
  have h: "fst (token_bytes 16 replay_tape)
           = fst (token_bytes 16 (snd (token_bytes 32 counting_tape)))"
    by (simp add: token_bytes_def replay_tape_def counting_tape_def)
  show ?thesis
    using default_config_accepted toy_aead_round_trip h
      unseal_ignores_password [OF default_config_accepted toy_aead_round_trip h,
         of demo_master_key "''Secret123''" "''wrong''"]
    by simp
qed

text \<open>In the other direction, with the stand-in primitives: the envelope sealed
  under a password is rejected under the same password when the hasher draws a
  salt whose first base64 character differs.\<close>

lemma toy_rejects_other_key:
  assumes "length k = length k'" "k \<noteq> k'"
  shows "aead_decrypt toy_lib k' n (aead_encrypt toy_lib k n p) = None"
  using assms by (simp add: toy_lib_def toy_mask_def)

lemma right_password_rejected:
  "fst (unseal_master_key toy_lib default_config
          (projr (fst (seal_master_key toy_lib default_config demo_master_key ''Secret123''
                         counting_tape)))
          ''Secret123'' ones_tape)
   = Inl (ValueError ''Failed to unseal master key'')"
proof -
  let ?nonce = "fst (token_bytes 12 (snd (token_bytes 16 (snd (token_bytes 32 counting_tape)))))"
  have nlen: "length ?nonce = 12" by (rule token_bytes_length)
  have "fst (unseal_body toy_lib default_config
          (projr (fst (seal_master_key toy_lib default_config demo_master_key ''Secret123''
                         counting_tape)))
          ''Secret123'' ones_tape)
        = cipher_decrypt toy_lib ''$argon2id$v=19$m=65536,t=3,p=1$/'' ?nonce
            (aead_encrypt toy_lib ''$argon2id$v=19$m=65536,t=3,p=1$4'' ?nonce demo_master_key)"
    unfolding unseal_of_seal [OF default_config_accepted] argon2_default_key [OF hasher_salt_long]
      seal_time_sextet unseal_time_sextet b64_char_56 b64_char_0_63
    by simp
  also have "\<dots> = Inl InvalidTag"
    using nlen
    by (simp add: cipher_decrypt_def toy_rejects_other_key)
  finally show ?thesis
    by (simp add: fst_unseal_master_key)
qed

text \<open>With cost parameters that Argon2 refuses (here a time cost of 0), sealing
  raises and produces no envelope.\<close>

lemma seal_refused_parameters:
  "fst (seal_master_key L (default_config\<lparr>argon2_time_cost := 0\<rparr>) mk password e)
     = Inl HashingError"
proof -
  have "argon2_refuses (default_config\<lparr>argon2_time_cost := 0\<rparr>) = Some HashingError"
    by (simp add: argon2_refuses_def default_config_def)
  then show ?thesis
    by (simp add: seal_master_key_def derive_key_refused split_beta)
qed

subsection \<open>File encryption\<close>

lemma derive_file_key_unlocked:
  assumes "is_unlocked_flag c" "master_key c = Some mk" "mk \<noteq> []"
      and "file_key_size cfg = 32"
  shows "derive_file_key L cfg c file_id =
           Inr (hkdf_sha256 L 32 ''vaultusb_file_key'' file_id mk)"
  using assms by (simp add: derive_file_key_def key_missing_def hkdf_derive_def)

lemma encrypt_file_unlocked:
  assumes "hkdf_length L"
      and "is_unlocked_flag (crypto w)" "master_key (crypto w) = Some mk" "mk \<noteq> []"
      and "file_key_size cfg = 32"
      and "contents (fs w) file_path = Some p"
      and "file_path \<notin> write_protected (fs w)"
  shows "encrypt_file L cfg w file_path file_id =
           (let key = hkdf_sha256 L 32 ''vaultusb_file_key'' file_id mk;
                nonce = fst (token_bytes 12 (rng w));
                blob = nonce @ aead_encrypt L key nonce p
            in (Inr True,
                w\<lparr>rng := snd (token_bytes 12 (rng w)),
                  fs := (fs w)\<lparr>contents := (contents (fs w))(file_path \<mapsto> blob),
                                journal := journal (fs w) @ [Wrote file_path blob]\<rparr>\<rparr>))"
proof -
  have klen: "length (hkdf_sha256 L 32 ''vaultusb_file_key'' file_id mk) = 32"
    using assms(1) by (simp add: hkdf_length_def)
  have km: "\<not> key_missing (crypto w)"
    using assms(2-4) by (simp add: key_missing_def)
  show ?thesis
    using km klen assms(6,7)
    by (simp add: encrypt_file_def derive_file_key_unlocked [OF assms(2-5)]
          ChaCha20Poly1305_def read_file_def split_beta Let_def cipher_encrypt_def
          token_bytes_length write_file_def)
qed

text \<open>Claim C4. Let the vault be unlocked on a non-empty master key \<open>mk\<close>, the file
  key size be 32, the AEAD primitive open what it sealed and HKDF return the length
  asked for. Then for every content \<open>p\<close> of a writable file and every file identifier
  \<open>f\<close>, \<open>encrypt_file\<close> succeeds and leaves in the file the fresh 12-byte nonce
  followed by the ciphertext of \<open>p\<close> under the key derived from \<open>(mk, f)\<close>, and
  \<open>decrypt_file\<close> on that file with the same \<open>f\<close> returns exactly \<open>p\<close>.\<close>

theorem file_round_trip:
  assumes "aead_round_trip L" and "hkdf_length L"
      and "is_unlocked_flag (crypto w)" "master_key (crypto w) = Some mk" "mk \<noteq> []"
      and "file_key_size cfg = 32"
      and "contents (fs w) file_path = Some p"
      and "file_path \<notin> write_protected (fs w)"
  shows "fst (encrypt_file L cfg w file_path f) = Inr True
       \<and> contents (fs (snd (encrypt_file L cfg w file_path f))) file_path =
           Some (fst (token_bytes 12 (rng w)) @
                 aead_encrypt L (hkdf_sha256 L 32 ''vaultusb_file_key'' f mk)
                   (fst (token_bytes 12 (rng w))) p)
       \<and> decrypt_file L cfg (snd (encrypt_file L cfg w file_path f)) file_path f = Inr p"
proof -
  let ?key = "hkdf_sha256 L 32 ''vaultusb_file_key'' f mk"
  let ?nonce = "fst (token_bytes 12 (rng w))"
  have klen: "length ?key = 32"
    using assms(2) by (simp add: hkdf_length_def)
  have nlen: "length ?nonce = 12" by (rule token_bytes_length)
  have open_ok: "aead_decrypt L ?key ?nonce (aead_encrypt L ?key ?nonce p) = Some p"
    using assms(1) klen nlen by (simp add: aead_round_trip_def)
  have km: "\<not> key_missing (crypto w)"
    using assms(3-5) by (simp add: key_missing_def)
  note enc = encrypt_file_unlocked [OF assms(2-8), of f, unfolded Let_def]
  have dfk: "derive_file_key L cfg (crypto (snd (encrypt_file L cfg w file_path f))) f
             = Inr ?key"
    unfolding enc using derive_file_key_unlocked [OF assms(3-6)] by simp
  have "decrypt_body L cfg (snd (encrypt_file L cfg w file_path f)) file_path f = Inr p"
    unfolding decrypt_body_def dfk
    using klen nlen open_ok
    by (simp add: enc ChaCha20Poly1305_def read_file_def Let_def cipher_decrypt_def)
  moreover have "\<not> key_missing (crypto (snd (encrypt_file L cfg w file_path f)))"
    using km by (simp add: enc)
  ultimately have "decrypt_file L cfg (snd (encrypt_file L cfg w file_path f)) file_path f = Inr p"
    by (simp add: decrypt_file_def)
  then show ?thesis by (simp add: enc)
qed

theorem file_round_trip_witness:
  "aead_round_trip toy_lib \<and> hkdf_length toy_lib
   \<and> is_unlocked_flag (crypto plain_world)
   \<and> master_key (crypto plain_world) = Some demo_master_key \<and> demo_master_key \<noteq> []
   \<and> file_key_size default_config = 32
   \<and> contents (fs plain_world) ''/opt/vaultusb/vault/blob'' = Some ''hello vault''
   \<and> ''/opt/vaultusb/vault/blob'' \<notin> write_protected (fs plain_world)
   \<and> fst (encrypt_file toy_lib default_config plain_world ''/opt/vaultusb/vault/blob'' ''f1'')
       = Inr True
   \<and> decrypt_file toy_lib default_config
        (snd (encrypt_file toy_lib default_config plain_world ''/opt/vaultusb/vault/blob'' ''f1''))
        ''/opt/vaultusb/vault/blob'' ''f1'' = Inr ''hello vault''"
proof -
  have h: "is_unlocked_flag (crypto plain_world)"
     "master_key (crypto plain_world) = Some demo_master_key" "demo_master_key \<noteq> []"
     "file_key_size default_config = 32"
     "contents (fs plain_world) ''/opt/vaultusb/vault/blob'' = Some ''hello vault''"
     "''/opt/vaultusb/vault/blob'' \<notin> write_protected (fs plain_world)"
    by (simp_all add: plain_world_def unlocked_world_def locked_world_def empty_fs_def
          demo_master_key_def default_config_def)
  show ?thesis
    using toy_aead_round_trip toy_hkdf_length h
      file_round_trip [OF toy_aead_round_trip toy_hkdf_length h, of "''f1''"]
    by simp
qed

subsection \<open>store_file\<close>

lemma store_file_unlocked:
  assumes "hkdf_length L"
      and "is_unlocked_flag (crypto w)" "master_key (crypto w) = Some mk" "mk \<noteq> []"
      and "file_key_size cfg = 32"
      and "path_join (vault_dir cfg)
             (fst (generate_encrypted_filename (snd (generate_file_id (rng w)))))
           \<notin> write_protected (fs w)"
  shows "store_file L cfg w file_data name u =
     (let file_id = fst (generate_file_id (rng w));
          e1 = snd (generate_file_id (rng w));
          encrypted_filename = fst (generate_encrypted_filename e1);
          e2 = snd (generate_encrypted_filename e1);
          encrypted_path = path_join (vault_dir cfg) encrypted_filename;
          nonce = fst (token_bytes 12 e2);
          key = hkdf_sha256 L 32 ''vaultusb_file_key'' file_id mk;
          blob = nonce @ aead_encrypt L key nonce file_data;
          w2 = w\<lparr>rng := snd (token_bytes 12 e2),
                 fs := (fs w)\<lparr>contents := (contents (fs w))(encrypted_path \<mapsto> blob),
                               journal := journal (fs w) @
                                 [Wrote encrypted_path file_data, Wrote encrypted_path blob]\<rparr>\<rparr>;
          file_record =
            \<lparr> id_file = file_id, original_name = name, encrypted_name = encrypted_filename,
              size_file = length file_data, mime_type = get_mime_type L name,
              created_at = clock w, modified_at = clock w, user_id = id_user u,
              is_deleted = False \<rparr>
      in case add_commit (db w) file_record of
           Inl x \<Rightarrow> (Inr None, w2)
         | Inr d' \<Rightarrow> (Inr (Some file_id), w2\<lparr>db := d'\<rparr>))"
proof -
  let ?e2 = "snd (generate_encrypted_filename (snd (generate_file_id (rng w))))"
  let ?path = "path_join (vault_dir cfg)
             (fst (generate_encrypted_filename (snd (generate_file_id (rng w)))))"
  let ?w1 = "w\<lparr>rng := ?e2,
               fs := (fs w)\<lparr>contents := (contents (fs w))(?path \<mapsto> file_data),
                             journal := journal (fs w) @ [Wrote ?path file_data]\<rparr>\<rparr>"
  have unl: "is_unlocked (crypto w)"
    using assms(2,3) by (simp add: is_unlocked_def)
  have enc: "encrypt_file L cfg ?w1 ?path (fst (generate_file_id (rng w))) = 
        (let key = hkdf_sha256 L 32 ''vaultusb_file_key'' (fst (generate_file_id (rng w))) mk;
                nonce = fst (token_bytes 12 (rng ?w1));
                blob = nonce @ aead_encrypt L key nonce file_data
            in (Inr True,
                ?w1\<lparr>rng := snd (token_bytes 12 (rng ?w1)),
                  fs := (fs ?w1)\<lparr>contents := (contents (fs ?w1))(?path \<mapsto> blob),
                                journal := journal (fs ?w1) @ [Wrote ?path blob]\<rparr>\<rparr>))"
    by (rule encrypt_file_unlocked) (use assms in simp_all)
  show ?thesis
    using unl assms(6)
    by (simp add: store_file_def split_beta Let_def write_file_def enc
             split: sum.splits)
qed


lemma encrypt_file_journal:
  "\<exists>evs. journal (fs (snd (encrypt_file L cfg w p f))) = journal (fs w) @ evs"
  by (auto simp add: encrypt_file_def write_file_def Let_def split_beta
           split: sum.splits if_splits)

lemma store_file_first_write:
  assumes "is_unlocked (crypto w)"
      and "path_join (vault_dir cfg)
             (fst (generate_encrypted_filename (snd (generate_file_id (rng w)))))
           \<notin> write_protected (fs w)"
  shows "\<exists>evs. journal (fs (snd (store_file L cfg w file_data name u))) =
           journal (fs w) @
           Wrote (path_join (vault_dir cfg)
                    (fst (generate_encrypted_filename (snd (generate_file_id (rng w))))))
                 file_data # evs"
proof -
  let ?e2 = "snd (generate_encrypted_filename (snd (generate_file_id (rng w))))"
  let ?path = "path_join (vault_dir cfg)
             (fst (generate_encrypted_filename (snd (generate_file_id (rng w)))))"
  let ?w1 = "w\<lparr>rng := ?e2,
               fs := (fs w)\<lparr>contents := (contents (fs w))(?path \<mapsto> file_data),
                             journal := journal (fs w) @ [Wrote ?path file_data]\<rparr>\<rparr>"
  let ?enc = "encrypt_file L cfg ?w1 ?path (fst (generate_file_id (rng w)))"
  obtain evs where evs: "journal (fs (snd ?enc)) = journal (fs w) @ Wrote ?path file_data # evs"
    using encrypt_file_journal [of L cfg ?w1 ?path "fst (generate_file_id (rng w))"] by auto
  obtain r w2 where enc: "?enc = (r, w2)" by (cases ?enc)
  with evs have j2: "journal (fs w2) = journal (fs w) @ Wrote ?path file_data # evs" by simp
  have "\<exists>evs'. journal (fs (snd (store_file L cfg w file_data name u))) = journal (fs w2) @ evs'"
    using assms
    by (auto simp add: store_file_def split_beta Let_def write_file_def enc unlink_def
             split: sum.splits)
  with j2 show ?thesis by auto
qed

text \<open>Claim C3, as amended. On an unlocked vault whose allocated file can be written,
  the first bytes that \<open>store_file\<close> writes to the allocated file are the plaintext as
  received. When moreover the master key is not empty and the configured file key
  size is 32 (HKDF returning a key of that size), a second write replaces them in
  place by the fresh nonce followed by the ciphertext, no other write follows,
  whatever the database does afterwards, and the file ends up holding nonce and
  ciphertext only.\<close>

theorem store_plaintext_then_ciphertext:
  assumes "is_unlocked (crypto w)"
      and "path_join (vault_dir cfg)
             (fst (generate_encrypted_filename (snd (generate_file_id (rng w)))))
           \<notin> write_protected (fs w)"
  shows
    "(let file_id = fst (generate_file_id (rng w));
          e1 = snd (generate_file_id (rng w));
          encrypted_path = path_join (vault_dir cfg) (fst (generate_encrypted_filename e1));
          nonce = fst (token_bytes 12 (snd (generate_encrypted_filename e1)));
          key = hkdf_sha256 L 32 ''vaultusb_file_key'' file_id mk;
          blob = nonce @ aead_encrypt L key nonce file_data;
          w' = snd (store_file L cfg w file_data name u)
      in take (Suc (length (journal (fs w)))) (journal (fs w')) =
           journal (fs w) @ [Wrote encrypted_path file_data]
         \<and> (hkdf_length L \<and> master_key (crypto w) = Some mk \<and> mk \<noteq> []
              \<and> file_key_size cfg = 32 \<longrightarrow>
            journal (fs w') =
              journal (fs w) @ [Wrote encrypted_path file_data, Wrote encrypted_path blob]
            \<and> contents (fs w') encrypted_path = Some blob))"
proof -
  have flag: "is_unlocked_flag (crypto w)"
    using assms(1) by (simp add: is_unlocked_def)
  obtain evs where "journal (fs (snd (store_file L cfg w file_data name u))) =
           journal (fs w) @
           Wrote (path_join (vault_dir cfg)
                    (fst (generate_encrypted_filename (snd (generate_file_id (rng w))))))
                 file_data # evs"
    using store_file_first_write [OF assms] by blast
  then have first: "take (Suc (length (journal (fs w))))
                      (journal (fs (snd (store_file L cfg w file_data name u)))) =
           journal (fs w) @
           [Wrote (path_join (vault_dir cfg)
                    (fst (generate_encrypted_filename (snd (generate_file_id (rng w))))))
                 file_data]"
    by simp
  have second: "journal (fs (snd (store_file L cfg w file_data name u))) =
              journal (fs w) @
              [Wrote (path_join (vault_dir cfg)
                    (fst (generate_encrypted_filename (snd (generate_file_id (rng w))))))
                 file_data,
               Wrote (path_join (vault_dir cfg)
                    (fst (generate_encrypted_filename (snd (generate_file_id (rng w))))))
                 (fst (token_bytes 12 (snd (generate_encrypted_filename
                                               (snd (generate_file_id (rng w)))))) @
                  aead_encrypt L
                    (hkdf_sha256 L 32 ''vaultusb_file_key'' (fst (generate_file_id (rng w))) mk)
                    (fst (token_bytes 12 (snd (generate_encrypted_filename
                                               (snd (generate_file_id (rng w)))))))
                    file_data)]
            \<and> contents (fs (snd (store_file L cfg w file_data name u)))
                (path_join (vault_dir cfg)
                    (fst (generate_encrypted_filename (snd (generate_file_id (rng w))))))
              = Some (fst (token_bytes 12 (snd (generate_encrypted_filename
                                               (snd (generate_file_id (rng w)))))) @
                  aead_encrypt L
                    (hkdf_sha256 L 32 ''vaultusb_file_key'' (fst (generate_file_id (rng w))) mk)
                    (fst (token_bytes 12 (snd (generate_encrypted_filename
                                               (snd (generate_file_id (rng w)))))))
                    file_data)"
    if "hkdf_length L" "master_key (crypto w) = Some mk" "mk \<noteq> []" "file_key_size cfg = 32"
    unfolding store_file_unlocked [OF that(1) flag that(2-4) assms(2)] Let_def
    by (simp split: sum.splits)
  show ?thesis
    unfolding Let_def using first second by blast
qed

theorem store_plaintext_then_ciphertext_witness:
  "is_unlocked (crypto unlocked_world)
   \<and> path_join (vault_dir default_config)
        (fst (generate_encrypted_filename (snd (generate_file_id (rng unlocked_world)))))
       \<notin> write_protected (fs unlocked_world)
   \<and> hkdf_length toy_lib
   \<and> master_key (crypto unlocked_world) = Some demo_master_key \<and> demo_master_key \<noteq> []
   \<and> file_key_size default_config = 32
   \<and> take 1 (journal (fs (snd (store_file toy_lib default_config unlocked_world
                                  ''hello vault'' ''note.txt'' alice)))) =
       [Wrote (path_join (vault_dir default_config)
                 (fst (generate_encrypted_filename (snd (generate_file_id (rng unlocked_world))))))
              ''hello vault'']
   \<and> length (journal (fs (snd (store_file toy_lib default_config unlocked_world
                                  ''hello vault'' ''note.txt'' alice)))) = 2
   \<and> contents (fs (snd (store_file toy_lib default_config unlocked_world
                            ''hello vault'' ''note.txt'' alice)))
        (path_join (vault_dir default_config)
           (fst (generate_encrypted_filename (snd (generate_file_id (rng unlocked_world))))))
       \<noteq> Some ''hello vault''"
proof -
  have u: "is_unlocked (crypto unlocked_world)"
    by (simp add: unlocked_world_def is_unlocked_def)
  have p: "path_join (vault_dir default_config)
        (fst (generate_encrypted_filename (snd (generate_file_id (rng unlocked_world)))))
       \<notin> write_protected (fs unlocked_world)"
    by (simp add: unlocked_world_def locked_world_def empty_fs_def)
  have h: "master_key (crypto unlocked_world) = Some demo_master_key" "demo_master_key \<noteq> []"
     "file_key_size default_config = 32"
    by (simp_all add: unlocked_world_def demo_master_key_def default_config_def)
  have j: "journal (fs unlocked_world) = []"
    by (simp add: unlocked_world_def locked_world_def empty_fs_def)
  let ?path = "path_join (vault_dir default_config)
        (fst (generate_encrypted_filename (snd (generate_file_id (rng unlocked_world)))))"
  let ?nonce = "fst (token_bytes 12 (snd (generate_encrypted_filename
                       (snd (generate_file_id (rng unlocked_world))))))"
  let ?blob = "?nonce @ aead_encrypt toy_lib
                 (hkdf_sha256 toy_lib 32 ''vaultusb_file_key''
                    (fst (generate_file_id (rng unlocked_world))) demo_master_key)
                 ?nonce ''hello vault''"
  let ?w' = "snd (store_file toy_lib default_config unlocked_world
                    ''hello vault'' ''note.txt'' alice)"
  note t = store_plaintext_then_ciphertext [OF u p, of toy_lib demo_master_key
             "''hello vault''" "''note.txt''" alice, unfolded Let_def j append_Nil]
  from t toy_hkdf_length h
  have c: "journal (fs ?w') = [Wrote ?path ''hello vault'', Wrote ?path ?blob]"
    and d: "contents (fs ?w') ?path = Some ?blob"
    by blast+
  have "length ?blob \<noteq> length ''hello vault''"
    by (simp add: token_bytes_length)
  then have ne: "?blob \<noteq> ''hello vault''" by metis
  from c have "take 1 (journal (fs ?w')) = [Wrote ?path ''hello vault'']"
    and "length (journal (fs ?w')) = 2"
    by simp_all
  with u p toy_hkdf_length h d ne show ?thesis by simp
qed

text \<open>Outside these conditions the second write does not happen. With an empty master
  key the vault counts as unlocked, \<open>encrypt_file\<close> raises, and the plaintext stays
  in the allocated file.\<close>

lemma store_with_empty_key_leaves_plaintext:
  assumes "is_unlocked_flag (crypto w)" "master_key (crypto w) = Some []"
      and "path_join (vault_dir cfg)
             (fst (generate_encrypted_filename (snd (generate_file_id (rng w)))))
           \<notin> write_protected (fs w)"
  shows "is_unlocked (crypto w)
       \<and> fst (store_file L cfg w file_data name u) = Inr None
       \<and> contents (fs (snd (store_file L cfg w file_data name u)))
           (path_join (vault_dir cfg)
              (fst (generate_encrypted_filename (snd (generate_file_id (rng w))))))
         = Some file_data"
  using assms
  by (simp add: is_unlocked_def store_file_def split_beta Let_def write_file_def
        encrypt_file_def key_missing_def)

text \<open>Claim C3 as stated fails: in the run of \<open>store_file\<close> on the bytes
  \<open>hello vault\<close>, the first thing written to the allocated file is the plaintext.\<close>

theorem store_plaintext_on_disk:
  "journal (fs (snd (store_file toy_lib default_config unlocked_world
                       ''hello vault'' ''note.txt'' alice))) ! 0
   = Wrote (path_join (vault_dir default_config)
              (fst (generate_encrypted_filename (snd (generate_file_id (rng unlocked_world))))))
           ''hello vault''"
proof -
  have h: "is_unlocked_flag (crypto unlocked_world)"
     "master_key (crypto unlocked_world) = Some demo_master_key" "demo_master_key \<noteq> []"
     "file_key_size default_config = 32"
     "path_join (vault_dir default_config)
        (fst (generate_encrypted_filename (snd (generate_file_id (rng unlocked_world)))))
       \<notin> write_protected (fs unlocked_world)"
    by (simp_all add: unlocked_world_def locked_world_def empty_fs_def
          demo_master_key_def default_config_def)
  have j: "journal (fs unlocked_world) = []"
    by (simp add: unlocked_world_def locked_world_def empty_fs_def)
  show ?thesis
    unfolding store_file_unlocked [OF toy_hkdf_length h] Let_def
    by (simp add: j split: sum.splits)
qed

text \<open>The cleanup that \<open>store_file\<close> does have: when \<open>encrypt_file\<close> returns False
  (here because the configured file key size is not 32), the file just written is
  unlinked and the result is None.\<close>

lemma encrypt_file_wrong_key_size:
  assumes "hkdf_length L" and "file_key_size cfg \<noteq> 32" and "\<not> key_missing (crypto w)"
  shows "encrypt_file L cfg w file_path file_id = (Inr False, w)"
proof (cases "file_key_size cfg > 255 * 32")
  case True
  then show ?thesis
    using assms(3) by (simp add: encrypt_file_def derive_file_key_def hkdf_derive_def)
next
  case False
  then show ?thesis
    using assms
    by (simp add: encrypt_file_def derive_file_key_def hkdf_derive_def hkdf_length_def
          ChaCha20Poly1305_def)
qed

lemma store_removes_file_when_encrypt_fails:
  assumes "hkdf_length L"
      and "is_unlocked_flag (crypto w)" "master_key (crypto w) = Some mk" "mk \<noteq> []"
      and "file_key_size cfg \<noteq> 32"
      and "path_join (vault_dir cfg)
             (fst (generate_encrypted_filename (snd (generate_file_id (rng w)))))
           \<notin> write_protected (fs w)"
  shows
    "(let encrypted_path = path_join (vault_dir cfg)
             (fst (generate_encrypted_filename (snd (generate_file_id (rng w)))));
          w' = snd (store_file L cfg w file_data name u)
      in fst (store_file L cfg w file_data name u) = Inr None
         \<and> contents (fs w') encrypted_path = None
         \<and> journal (fs w') =
             journal (fs w) @ [Wrote encrypted_path file_data, Unlinked encrypted_path]
         \<and> db w' = db w)"
proof -
  have unl: "is_unlocked (crypto w)"
    using assms(2,3) by (simp add: is_unlocked_def)
  have km: "\<not> key_missing (crypto w)"
    using assms(2-4) by (simp add: key_missing_def)
  show ?thesis
    using unl km assms(6)
    by (simp add: store_file_def split_beta Let_def write_file_def unlink_def
          encrypt_file_wrong_key_size [OF assms(1) assms(5)])
qed

text \<open>Claim C7 (no blob without a catalog entry after a failed store) against the
  code. On an unlocked vault, when the database refuses the commit, \<open>store_file\<close>
  returns None, the database is unchanged, and the allocated file still holds
  nonce and ciphertext: only the branch for a failed \<open>encrypt_file\<close> removes the
  file.\<close>

theorem store_orphans_blob_when_commit_fails:
  assumes "hkdf_length L"
      and "is_unlocked_flag (crypto w)" "master_key (crypto w) = Some mk" "mk \<noteq> []"
      and "file_key_size cfg = 32"
      and "path_join (vault_dir cfg)
             (fst (generate_encrypted_filename (snd (generate_file_id (rng w)))))
           \<notin> write_protected (fs w)"
      and "locked (db w)"
  shows
    "(let file_id = fst (generate_file_id (rng w));
          e1 = snd (generate_file_id (rng w));
          encrypted_path = path_join (vault_dir cfg) (fst (generate_encrypted_filename e1));
          nonce = fst (token_bytes 12 (snd (generate_encrypted_filename e1)));
          key = hkdf_sha256 L 32 ''vaultusb_file_key'' file_id mk;
          w' = snd (store_file L cfg w file_data name u)
      in fst (store_file L cfg w file_data name u) = Inr None
         \<and> contents (fs w') encrypted_path = Some (nonce @ aead_encrypt L key nonce file_data)
         \<and> db w' = db w)"
  unfolding store_file_unlocked [OF assms(1-6)] Let_def
  using assms(7) by (simp add: add_commit_def)

theorem store_orphans_blob_when_commit_fails_witness:
  "hkdf_length toy_lib
   \<and> is_unlocked_flag (crypto dblocked_world)
   \<and> master_key (crypto dblocked_world) = Some demo_master_key \<and> demo_master_key \<noteq> []
   \<and> file_key_size default_config = 32
   \<and> path_join (vault_dir default_config)
        (fst (generate_encrypted_filename (snd (generate_file_id (rng dblocked_world)))))
       \<notin> write_protected (fs dblocked_world)
   \<and> locked (db dblocked_world)
   \<and> fst (store_file toy_lib default_config dblocked_world ''hello vault'' ''note.txt'' alice)
       = Inr None
   \<and> contents (fs (snd (store_file toy_lib default_config dblocked_world
                            ''hello vault'' ''note.txt'' alice)))
         (path_join (vault_dir default_config)
            (fst (generate_encrypted_filename (snd (generate_file_id (rng dblocked_world))))))
       \<noteq> None
   \<and> file_table (db (snd (store_file toy_lib default_config dblocked_world
                            ''hello vault'' ''note.txt'' alice))) = []"
proof -
  have h: "is_unlocked_flag (crypto dblocked_world)"
     "master_key (crypto dblocked_world) = Some demo_master_key" "demo_master_key \<noteq> []"
     "file_key_size default_config = 32"
     "path_join (vault_dir default_config)
        (fst (generate_encrypted_filename (snd (generate_file_id (rng dblocked_world)))))
       \<notin> write_protected (fs dblocked_world)"
     "locked (db dblocked_world)"
    by (simp_all add: dblocked_world_def unlocked_world_def locked_world_def empty_fs_def
          demo_master_key_def default_config_def)
  have t: "file_table (db dblocked_world) = []"
    by (simp add: dblocked_world_def)
  show ?thesis
    using toy_hkdf_length h t
      store_orphans_blob_when_commit_fails [OF toy_hkdf_length h, of "''hello vault''"
         "''note.txt''" alice]
    by (simp add: Let_def)
qed

subsection \<open>retrieve_file\<close>

lemma demo_master_key_nonempty: "demo_master_key \<noteq> []"
  by (simp add: demo_master_key_def)

lemma catalog_key_present: "\<not> key_missing (crypto catalog_world)"
  using demo_master_key_nonempty
  by (simp add: catalog_world_def unlocked_world_def key_missing_def)

lemma catalog_facts:
  "is_unlocked (crypto catalog_world)"
  "\<not> locked (db catalog_world)"
  "query_active (db catalog_world) ''f1'' alice = Some row_f1"
  "query_active (db catalog_world) ''f2'' alice = None"
  "query_active (db catalog_world) ''f3'' alice = Some row_f3"
  "path_join (vault_dir default_config) (encrypted_name row_f1) = ''/opt/vaultusb/vault/blob''"
  "path_join (vault_dir default_config) (encrypted_name row_f3) = ''/opt/vaultusb/vault/good''"
  by (simp_all add: catalog_world_def unlocked_world_def locked_world_def is_unlocked_def
        key_missing_def demo_master_key_def query_active_def row_f1_def row_f3_def
        alice_def path_join_def default_config_def)

lemma catalog_file_key:
  "derive_file_key toy_lib default_config (crypto catalog_world) file_id = Inr demo_master_key"
proof -
  have "master_key (crypto catalog_world) = Some demo_master_key"
    by (simp add: catalog_world_def unlocked_world_def)
  then show ?thesis
    by (simp add: derive_file_key_def catalog_key_present hkdf_derive_def default_config_def
          toy_lib_def demo_master_key_def)
qed

lemma catalog_blobs:
  "read_file (fs catalog_world) ''/opt/vaultusb/vault/blob'' =
     Inr (''0123456789ab'' @ toy_mask ''hello vault'' @ replicate 32 (CHR ''x'') @ ''0123456789ab'')"
  "read_file (fs catalog_world) ''/opt/vaultusb/vault/good'' =
     Inr (''0123456789ab'' @ toy_mask ''hello vault'' @ demo_master_key @ ''0123456789ab'')"
  "path_exists (fs catalog_world) ''/opt/vaultusb/vault/blob''"
  "path_exists (fs catalog_world) ''/opt/vaultusb/vault/good''"
  "''/opt/vaultusb/vault/blob'' \<in> write_protected (fs catalog_world)"
  by (simp_all add: read_file_def path_exists_def catalog_world_def)

lemma toy_mask_length: "length (toy_mask p) = length p"
  by (simp add: toy_mask_def)

lemma catalog_decrypt_tampered:
  "decrypt_body toy_lib default_config catalog_world ''/opt/vaultusb/vault/blob'' ''f1''
     = Inl InvalidTag"
  unfolding decrypt_body_def catalog_file_key catalog_blobs
  by (simp add: ChaCha20Poly1305_def cipher_decrypt_def demo_master_key_def toy_lib_def
        toy_mask_length)

lemma catalog_decrypt_good:
  "decrypt_body toy_lib default_config catalog_world ''/opt/vaultusb/vault/good'' ''f3''
     = Inr ''hello vault''"
  unfolding decrypt_body_def catalog_file_key catalog_blobs
  by (simp add: ChaCha20Poly1305_def cipher_decrypt_def demo_master_key_def toy_lib_def
        toy_mask_length toy_mask_involution)

text \<open>Claim C6, as amended. On an unlocked vault, \<open>retrieve_file\<close> returns None exactly
  when no active record with that file id and owner exists, or the record exists but
  its blob file is missing, or \<open>decrypt_file\<close> raises on the blob; an AEAD
  authentication failure is one of the failures that give None. It returns a
  plaintext exactly when the record exists, the blob file exists and
  \<open>decrypt_file\<close> returned that plaintext.\<close>

theorem retrieve_results:
  assumes "is_unlocked (crypto w)"
  shows
    "(let record = query_active (db w) file_id u;
          blob_path = path_join (vault_dir cfg) (encrypted_name (the record))
      in (retrieve_file L cfg w file_id u = Inr None) =
           (record = None \<or> \<not> path_exists (fs w) blob_path
            \<or> isl (decrypt_file L cfg w blob_path file_id))
         \<and> (retrieve_file L cfg w file_id u = Inr (Some p)) =
           (record \<noteq> None \<and> path_exists (fs w) blob_path
            \<and> decrypt_file L cfg w blob_path file_id = Inr p)
         \<and> (record \<noteq> None \<and> path_exists (fs w) blob_path
            \<and> decrypt_body L cfg w blob_path file_id = Inl InvalidTag
            \<longrightarrow> retrieve_file L cfg w file_id u = Inr None))"
  using assms
  by (auto simp add: retrieve_file_def decrypt_file_def Let_def
           split: option.splits sum.splits if_splits)

theorem retrieve_results_witness:
  "is_unlocked (crypto catalog_world)
   \<and> (query_active (db catalog_world) ''f2'' alice = None
      \<and> retrieve_file toy_lib default_config catalog_world ''f2'' alice = Inr None)
   \<and> (query_active (db catalog_world) ''f1'' alice = Some row_f1
      \<and> path_exists (fs catalog_world) ''/opt/vaultusb/vault/blob''
      \<and> decrypt_body toy_lib default_config catalog_world ''/opt/vaultusb/vault/blob'' ''f1''
         = Inl InvalidTag
      \<and> retrieve_file toy_lib default_config catalog_world ''f1'' alice = Inr None)
   \<and> (query_active (db catalog_world) ''f3'' alice = Some row_f3
      \<and> path_exists (fs catalog_world) ''/opt/vaultusb/vault/good''
      \<and> decrypt_file toy_lib default_config catalog_world ''/opt/vaultusb/vault/good'' ''f3''
         = Inr ''hello vault''
      \<and> retrieve_file toy_lib default_config catalog_world ''f3'' alice
         = Inr (Some ''hello vault''))"
proof -
  have u: "is_unlocked (crypto catalog_world)" by (rule catalog_facts)
  have good: "decrypt_file toy_lib default_config catalog_world
                ''/opt/vaultusb/vault/good'' ''f3'' = Inr ''hello vault''"
    by (simp add: decrypt_file_def catalog_key_present catalog_decrypt_good)
  note t2 = retrieve_results [OF u, where file_id = "''f2''" and u = alice and L = toy_lib
               and cfg = default_config, unfolded Let_def catalog_facts option.sel]
  note t1 = retrieve_results [OF u, where file_id = "''f1''" and u = alice and L = toy_lib
               and cfg = default_config, unfolded Let_def catalog_facts option.sel]
  note t3 = retrieve_results [OF u, where file_id = "''f3''" and u = alice and L = toy_lib
               and cfg = default_config and p = "''hello vault''",
               unfolded Let_def catalog_facts option.sel]
  have r2: "retrieve_file toy_lib default_config catalog_world ''f2'' alice = Inr None"
    using t2 by blast
  have r1: "retrieve_file toy_lib default_config catalog_world ''f1'' alice = Inr None"
    using t1 catalog_blobs(3) catalog_decrypt_tampered by blast
  have r3: "retrieve_file toy_lib default_config catalog_world ''f3'' alice
            = Inr (Some ''hello vault'')"
    using t3 catalog_blobs(4) good by blast
  show ?thesis
    using u r1 r2 r3 good catalog_facts(3,4,5) catalog_blobs(3,4) catalog_decrypt_tampered
    by blast
qed

text \<open>Claim C6 as stated fails: the active record \<open>f1\<close> has a blob whose tag does
  not verify, and \<open>retrieve_file\<close> answers None for it, exactly as it does for the
  unknown id \<open>f2\<close>.\<close>

theorem retrieve_masks_decryption_failure:
  "query_active (db catalog_world) ''f1'' alice = Some row_f1
   \<and> \<not> is_deleted row_f1
   \<and> decrypt_body toy_lib default_config catalog_world
        (path_join (vault_dir default_config) (encrypted_name row_f1)) ''f1'' = Inl InvalidTag
   \<and> retrieve_file toy_lib default_config catalog_world ''f1'' alice = Inr None
   \<and> query_active (db catalog_world) ''f2'' alice = None
   \<and> retrieve_file toy_lib default_config catalog_world ''f2'' alice = Inr None"
  by (simp add: retrieve_file_def catalog_facts catalog_blobs decrypt_file_def
        catalog_key_present catalog_decrypt_tampered)
     (simp add: row_f1_def)

subsection \<open>delete_file\<close>

lemma secure_delete_protected:
  assumes "contents (fs w) p = Some blob" "p \<in> write_protected (fs w)"
  shows "secure_delete w p = (False, w)"
  using assms by (simp add: secure_delete_def path_exists_def)

text \<open>Claim C8 (a failed erase is not reported as success) against the code. On an
  unlocked vault with a writable database, when the blob of an active record exists
  but cannot be opened for writing, \<open>secure_delete\<close> returns False and leaves the
  blob as it is, and \<open>delete_file\<close> returns True all the same.\<close>

theorem delete_succeeds_on_failed_erase:
  assumes "is_unlocked (crypto w)"
      and "query_active (db w) file_id u = Some r"
      and "\<not> locked (db w)"
      and "contents (fs w) (path_join (vault_dir cfg) (encrypted_name r)) = Some blob"
      and "path_join (vault_dir cfg) (encrypted_name r) \<in> write_protected (fs w)"
  shows "fst (delete_file cfg w file_id u) = Inr True
       \<and> fst (secure_delete (w\<lparr>db := db (snd (delete_file cfg w file_id u))\<rparr>)
                 (path_join (vault_dir cfg) (encrypted_name r))) = False
       \<and> contents (fs (snd (delete_file cfg w file_id u)))
            (path_join (vault_dir cfg) (encrypted_name r)) = Some blob"
proof -
  let ?p = "path_join (vault_dir cfg) (encrypted_name r)"
  let ?d = "(db w)\<lparr>file_table :=
                  map (\<lambda>x. if id_file x = id_file r
                            then x\<lparr>is_deleted := True, modified_at := clock w\<rparr> else x)
                      (file_table (db w))\<rparr>"
  have m: "mark_deleted_commit (db w) r (clock w) = Inr ?d"
    using assms(3) by (simp add: mark_deleted_commit_def)
  have sd: "secure_delete (w\<lparr>db := ?d\<rparr>) ?p = (False, w\<lparr>db := ?d\<rparr>)"
    by (rule secure_delete_protected [where blob = blob]) (use assms in simp_all)
  have del: "delete_file cfg w file_id u = (Inr True, w\<lparr>db := ?d\<rparr>)"
    using assms(1,2,4) by (simp add: delete_file_def m Let_def path_exists_def sd)
  from del sd assms(4) show ?thesis by simp
qed

theorem delete_succeeds_on_failed_erase_witness:
  "is_unlocked (crypto catalog_world)
   \<and> query_active (db catalog_world) ''f1'' alice = Some row_f1
   \<and> \<not> locked (db catalog_world)
   \<and> contents (fs catalog_world) (path_join (vault_dir default_config) (encrypted_name row_f1))
       = Some (''0123456789ab'' @ toy_mask ''hello vault'' @ replicate 32 (CHR ''x'')
               @ ''0123456789ab'')
   \<and> path_join (vault_dir default_config) (encrypted_name row_f1)
       \<in> write_protected (fs catalog_world)
   \<and> fst (delete_file default_config catalog_world ''f1'' alice) = Inr True
   \<and> fst (secure_delete
             (catalog_world\<lparr>db := db (snd (delete_file default_config catalog_world ''f1'' alice))\<rparr>)
             (path_join (vault_dir default_config) (encrypted_name row_f1))) = False
   \<and> contents (fs (snd (delete_file default_config catalog_world ''f1'' alice)))
         (path_join (vault_dir default_config) (encrypted_name row_f1))
       = Some (''0123456789ab'' @ toy_mask ''hello vault'' @ replicate 32 (CHR ''x'')
               @ ''0123456789ab'')"
proof -
  have h: "is_unlocked (crypto catalog_world)"
    "query_active (db catalog_world) ''f1'' alice = Some row_f1"
    "\<not> locked (db catalog_world)"
    "contents (fs catalog_world) (path_join (vault_dir default_config) (encrypted_name row_f1))
       = Some (''0123456789ab'' @ toy_mask ''hello vault'' @ replicate 32 (CHR ''x'')
               @ ''0123456789ab'')"
    "path_join (vault_dir default_config) (encrypted_name row_f1)
       \<in> write_protected (fs catalog_world)"
    using catalog_blobs(1,5)
    by (simp_all add: catalog_facts read_file_def split: option.splits)
  show ?thesis
    using h delete_succeeds_on_failed_erase [OF h] by blast
qed

end
